theory Spec2Isabelle
  imports Complex_Main "HOL-Library.AList" "HOL-Library.Word"
begin

section \<open>Python runtime pieces the command service relies on\<close>

text \<open>
  A Python \<open>str\<close> that names a command, an argument, an id or a message is a
  \<open>string\<close>; the service only splits, joins and compares such strings, so one
  \<open>char\<close> stands for one code point. Text decoded from a child's output is a list
  of Unicode code points (\<open>unicode\<close>), because decoding can produce U+FFFD.
\<close>

type_synonym byte = "8 word"
type_synonym unicode = "nat list"

datatype error =
    RuntimeError string
  | NameError string
  | OSError string
  | OverflowError string
  | ValueError string
  | UnicodeDecodeError string

subsection \<open>\<open>str.split(sep)\<close>, \<open>sep.join(parts)\<close>, \<open>str.startswith\<close>\<close>

text \<open>
  \<open>s.split(sep)\<close> with a one-character separator: the pieces between the
  occurrences of \<open>sep\<close>, empty pieces included, so the result is never empty.
\<close>

fun split_str :: "char \<Rightarrow> string \<Rightarrow> string list" where
  "split_str sep [] = [[]]"
| "split_str sep (c # cs) =
     (if c = sep then [] # split_str sep cs
      else (case split_str sep cs of
              [] \<Rightarrow> [[c]]
            | p # ps \<Rightarrow> (c # p) # ps))"

fun join_str :: "string \<Rightarrow> string list \<Rightarrow> string" where
  "join_str sep [] = []"
| "join_str sep [p] = p"
| "join_str sep (p # q # ps) = p @ sep @ join_str sep (q # ps)"

definition startswith :: "string \<Rightarrow> string \<Rightarrow> bool" where
  "startswith s p = (take (length p) s = p)"

subsection \<open>\<open>dict\<close>\<close>

text \<open>
  A \<open>dict\<close> keeps insertion order; assigning to a present key keeps the key's
  place. That is an association list with \<open>AList.update\<close> and \<open>AList.delete\<close>.
\<close>

type_synonym ('k, 'v) dict = "('k \<times> 'v) list"

definition dict_get :: "('k, 'v) dict \<Rightarrow> 'k \<Rightarrow> 'v option" where
  "dict_get d k = map_of d k"

definition dict_set :: "('k, 'v) dict \<Rightarrow> 'k \<Rightarrow> 'v \<Rightarrow> ('k, 'v) dict" where
  "dict_set d k v = AList.update k v d"

definition dict_pop :: "('k, 'v) dict \<Rightarrow> 'k \<Rightarrow> ('k, 'v) dict" where
  "dict_pop d k = AList.delete k d"

definition dict_contains :: "('k, 'v) dict \<Rightarrow> 'k \<Rightarrow> bool" where
  "dict_contains d k = (map_of d k \<noteq> None)"

definition dict_values :: "('k, 'v) dict \<Rightarrow> 'v list" where
  "dict_values d = map snd d"

subsection \<open>\<open>shlex.quote\<close>\<close>

definition shlex_safe_char :: "char \<Rightarrow> bool" where
  "shlex_safe_char c =
     (c \<in> set (''abcdefghijklmnopqrstuvwxyz'' @ ''ABCDEFGHIJKLMNOPQRSTUVWXYZ''
                @ ''0123456789'' @ ''_@%+=:,./-''))"

definition shlex_quote :: "string \<Rightarrow> string" where
  "shlex_quote s =
     (if s = [] then [CHR 0x27, CHR 0x27]
      else if list_all shlex_safe_char s then s
      else [CHR 0x27]
           @ concat (map (\<lambda>c. if c = CHR 0x27
                                then [CHR 0x27, CHR 0x22, CHR 0x27, CHR 0x22, CHR 0x27]
                                else [c]) s)
           @ [CHR 0x27])"

subsection \<open>\<open>bytes.decode(errors=...)\<close> with the default encoding UTF-8\<close>

text \<open>
  One step of the runtime's UTF-8 decoder at the head of the remaining input: either a
  code point and the number of bytes it took, or a malformed sequence with the reason
  and the number of bytes the error covers. Overlong forms, surrogates and values past
  U+10FFFF are rejected at the second byte; a sequence cut off by the end of the input
  covers all the bytes that remain.
\<close>

datatype utf8_step = Decoded nat nat | Malformed string nat

definition is_continuation :: "byte \<Rightarrow> bool" where
  "is_continuation b = (0x80 \<le> b \<and> b < 0xC0)"

fun utf8_decode_one :: "byte list \<Rightarrow> utf8_step" where
  "utf8_decode_one [] = Malformed ''unexpected end of data'' 0"
| "utf8_decode_one (ch # rest) =
     (if ch < 0x80 then Decoded (unat ch) 1
      else if ch < 0xC2 then Malformed ''invalid start byte'' 1
      else if ch < 0xE0 then
        (case rest of
           [] \<Rightarrow> Malformed ''unexpected end of data'' 1
         | ch2 # _ \<Rightarrow>
             if \<not> is_continuation ch2 then Malformed ''invalid continuation byte'' 1
             else Decoded ((unat ch - 0xC0) * 64 + (unat ch2 - 0x80)) 2)
      else if ch < 0xF0 then
        (case rest of
           [] \<Rightarrow> Malformed ''unexpected end of data'' 1
         | ch2 # rest2 \<Rightarrow>
             if \<not> is_continuation ch2 \<or> (if ch2 < 0xA0 then ch = 0xE0 else ch = 0xED)
             then Malformed ''invalid continuation byte'' 1
             else (case rest2 of
                     [] \<Rightarrow> Malformed ''unexpected end of data'' 2
                   | ch3 # _ \<Rightarrow>
                       if \<not> is_continuation ch3 then Malformed ''invalid continuation byte'' 2
                       else Decoded ((unat ch - 0xE0) * 4096 + (unat ch2 - 0x80) * 64
                                     + (unat ch3 - 0x80)) 3))
      else if ch < 0xF5 then
        (case rest of
           [] \<Rightarrow> Malformed ''unexpected end of data'' 1
         | ch2 # rest2 \<Rightarrow>
             if \<not> is_continuation ch2 \<or> (if ch2 < 0x90 then ch = 0xF0 else ch = 0xF4)
             then Malformed ''invalid continuation byte'' 1
             else (case rest2 of
                     [] \<Rightarrow> Malformed ''unexpected end of data'' 2
                   | ch3 # rest3 \<Rightarrow>
                       if \<not> is_continuation ch3 then Malformed ''invalid continuation byte'' 2
                       else (case rest3 of
                               [] \<Rightarrow> Malformed ''unexpected end of data'' 3
                             | ch4 # _ \<Rightarrow>
                                 if \<not> is_continuation ch4
                                 then Malformed ''invalid continuation byte'' 3
                                 else Decoded ((unat ch - 0xF0) * 262144
                                               + (unat ch2 - 0x80) * 4096
                                               + (unat ch3 - 0x80) * 64
                                               + (unat ch4 - 0x80)) 4)))
      else Malformed ''invalid start byte'' 1)"

text \<open>How many bytes a step takes from the input.\<close>

fun consumed :: "utf8_step \<Rightarrow> nat" where
  "consumed (Decoded cp n) = n"
| "consumed (Malformed reason n) = n"

datatype errors = Strict | Replace

text \<open>
  \<open>bs.decode(errors=mode)\<close>: under \<open>Strict\<close> the first malformed sequence raises
  \<open>UnicodeDecodeError\<close>; under \<open>Replace\<close> it becomes one U+FFFD (65533) and decoding
  goes on after the bytes the error covers.
\<close>

function decode :: "errors \<Rightarrow> byte list \<Rightarrow> error + unicode" where
  "decode mode [] = Inr []"
| "decode mode (b # bs) =
     (case utf8_decode_one (b # bs) of
        Decoded cp n \<Rightarrow>
          (case decode mode (drop n (b # bs)) of
             Inl e \<Rightarrow> Inl e
           | Inr t \<Rightarrow> Inr (cp # t))
      | Malformed reason n \<Rightarrow>
          (case mode of
             Strict \<Rightarrow> Inl (UnicodeDecodeError reason)
           | Replace \<Rightarrow>
               (case decode mode (drop n (b # bs)) of
                  Inl e \<Rightarrow> Inl e
                | Inr t \<Rightarrow> Inr (0xFFFD # t))))"
  by pat_completeness auto
termination
proof (relation "measure (\<lambda>(mode, bs). length bs)")
  show "wf (measure (\<lambda>(mode, bs). length bs))" by simp
next
  fix mode :: errors and b :: byte and bs cp n
  assume step: "utf8_decode_one (b # bs) = Decoded cp n"
  have "0 < consumed (utf8_decode_one (b # bs))"
    by (simp split: list.split)
  with step have "0 < n" by simp
  then show "((mode, drop n (b # bs)), (mode, b # bs)) \<in> measure (\<lambda>(mode, bs). length bs)"
    by simp
next
  fix mode :: errors and b :: byte and bs reason n x
  assume step: "utf8_decode_one (b # bs) = Malformed reason n"
  have "0 < consumed (utf8_decode_one (b # bs))"
    by (simp split: list.split)
  with step have "0 < n" by simp
  then show "((mode, drop n (b # bs)), (mode, b # bs)) \<in> measure (\<lambda>(mode, bs). length bs)"
    by simp
qed


section \<open>Platform (\<open>src/utils/platform.py\<close>)\<close>

datatype PlatformType = WINDOWS | MACOS | LINUX | UNKNOWN

definition detect_platform :: "string \<Rightarrow> PlatformType" where
  "detect_platform platform =
     (if startswith platform ''win32'' then WINDOWS
      else if startswith platform ''darwin'' then MACOS
      else if startswith platform ''linux'' then LINUX
      else UNKNOWN)"

text \<open>\<open>os.environ.get(key, default)\<close>.\<close>

definition environ_get :: "(string \<rightharpoonup> string) \<Rightarrow> string \<Rightarrow> string \<Rightarrow> string" where
  "environ_get environ key dflt = (case environ key of None \<Rightarrow> dflt | Some v \<Rightarrow> v)"

definition get_default_shell :: "string \<Rightarrow> (string \<rightharpoonup> string) \<Rightarrow> string" where
  "get_default_shell sys_platform environ =
     (let platform = detect_platform sys_platform in
      if platform = WINDOWS then environ_get environ ''COMSPEC'' ''cmd.exe''
      else if platform = MACOS then ''/bin/zsh''
      else if platform = LINUX then environ_get environ ''SHELL'' ''/bin/bash''
      else environ_get environ ''SHELL'' ''/bin/sh'')"

section \<open>Types of the command service (\<open>src/services/command_service.py\<close>)\<close>

datatype CommandSecurityLevel = SAFE | REQUIRES_APPROVAL | FORBIDDEN

record CommandWhitelistEntry =
  command :: string
  security_level :: CommandSecurityLevel
  allowed_args :: "string list option"
  description :: "string option"

record CommandResult =
  stdout :: unicode
  stderr :: unicode

text \<open>
  A future of the event loop, and the two closures a pending command carries. The
  blocking queue creates one future and closes \<open>resolve\<close> and \<open>reject\<close> over it; the
  non-blocking queue stores two lambdas that do nothing. Futures live in a store
  indexed by address, so two pending commands never share one.
\<close>

datatype future = FPending | FResult CommandResult | FException error

datatype callback = FutureCallback nat | NoopCallback

record PendingCommand =
  id_pc :: string
  command_pc :: string
  args_pc :: "string list"
  requested_at :: real
  requested_by :: "string option"
  resolve :: callback
  reject :: callback

text \<open>What \<open>emit(event, payload)\<close> hands to the listeners of \<open>event\<close>.\<close>

datatype payload =
    PendingPayload PendingCommand
  | ApprovedPayload string unicode unicode
  | FailedPayload string error
  | DeniedPayload string string
  | ApprovalTimeoutPayload string string

text \<open>
  The service object (\<open>shell\<close>, \<open>whitelist\<close>, \<open>pending_commands\<close>,
  \<open>default_timeout\<close>) together with what its methods touch outside it: the events
  emitted so far, in order (a listener's exception is swallowed by \<open>emit\<close>, and what
  listeners do is outside the service); the futures of the event loop; the callbacks
  registered with \<open>call_later\<close>, as the delay in seconds and the \<open>cmd_id\<close> the
  closure holds; and the argument vectors of the children killed by \<open>proc.kill()\<close>.
\<close>

record CommandService =
  shell :: string
  whitelist :: "(string, CommandWhitelistEntry) dict"
  pending_commands :: "(string, PendingCommand) dict"
  default_timeout :: int
  emitted :: "(string \<times> payload) list"
  futures :: "future list"
  timers :: "(real \<times> string) list"
  killed :: "string list list"

text \<open>
  A child process as \<open>_run_now\<close> sees it: what \<open>communicate()\<close> returns and
  after how many seconds (\<open>None\<close>: it never returns), and the exit status, which
  \<open>_run_now\<close> never reads. \<open>create_subprocess_exec\<close> either raises or gives a child.
\<close>

record child_process =
  exit_status :: int
  stdout_b :: "byte list"
  stderr_b :: "byte list"
  completes_after :: "real option"

datatype spawn_result = SpawnFails error | Spawns child_process

record environment =
  sys_platform :: string
  environ :: "string \<rightharpoonup> string"
  create_subprocess_exec :: "string list \<Rightarrow> spawn_result"

section \<open>Event emitter and futures\<close>

definition emit :: "CommandService \<Rightarrow> string \<Rightarrow> payload \<Rightarrow> CommandService" where
  "emit s event p = s\<lparr>emitted := emitted s @ [(event, p)]\<rparr>"

definition fut_done :: "future \<Rightarrow> bool" where
  "fut_done f = (f \<noteq> FPending)"

text \<open>\<open>resolve(res)\<close>: \<open>if not fut.done(): fut.set_result(res)\<close>, or the lambda.\<close>

definition call_resolve :: "callback \<Rightarrow> CommandResult \<Rightarrow> CommandService \<Rightarrow> CommandService" where
  "call_resolve cb res s =
     (case cb of
        NoopCallback \<Rightarrow> s
      | FutureCallback a \<Rightarrow>
          if a < length (futures s) \<and> \<not> fut_done (futures s ! a)
          then s\<lparr>futures := (futures s)[a := FResult res]\<rparr>
          else s)"

text \<open>\<open>reject(err)\<close>: \<open>if not fut.done(): fut.set_exception(err)\<close>, or the lambda.\<close>

definition call_reject :: "callback \<Rightarrow> error \<Rightarrow> CommandService \<Rightarrow> CommandService" where
  "call_reject cb err s =
     (case cb of
        NoopCallback \<Rightarrow> s
      | FutureCallback a \<Rightarrow>
          if a < length (futures s) \<and> \<not> fut_done (futures s ! a)
          then s\<lparr>futures := (futures s)[a := FException err]\<rparr>
          else s)"

section \<open>Whitelist management\<close>

definition get_whitelist :: "CommandService \<Rightarrow> CommandWhitelistEntry list" where
  "get_whitelist s = dict_values (whitelist s)"

definition get_pending_commands :: "CommandService \<Rightarrow> PendingCommand list" where
  "get_pending_commands s = dict_values (pending_commands s)"

definition add_to_whitelist :: "CommandService \<Rightarrow> CommandWhitelistEntry \<Rightarrow> CommandService" where
  "add_to_whitelist s entry = s\<lparr>whitelist := dict_set (whitelist s) (command entry) entry\<rparr>"

definition remove_from_whitelist :: "CommandService \<Rightarrow> string \<Rightarrow> CommandService" where
  "remove_from_whitelist s cmd = s\<lparr>whitelist := dict_pop (whitelist s) cmd\<rparr>"

definition update_security_level ::
  "CommandService \<Rightarrow> string \<Rightarrow> CommandSecurityLevel \<Rightarrow> CommandService" where
  "update_security_level s cmd level =
     (case dict_get (whitelist s) cmd of
        None \<Rightarrow> s
      | Some entry \<Rightarrow>
          s\<lparr>whitelist := dict_set (whitelist s) cmd (entry\<lparr>security_level := level\<rparr>)\<rparr>)"

text \<open>
  The expression \<open>x.split("\\")[-1].split("/")[-1]\<close>, which \<open>_validate_command\<close>
  binds to \<open>base_command\<close> and \<open>_initialize_default_whitelist\<close> to \<open>base\<close>.
  \<open>split\<close> never returns an empty list, so \<open>[-1]\<close> never raises.
\<close>

definition base_command :: "string \<Rightarrow> string" where
  "base_command x = last (split_str (CHR ''/'') (last (split_str (CHR 0x5C) x)))"

text \<open>
  The base name in the words of the specification: the last path segment under either
  separator, that is, the longest end of the string that holds neither \<open>/\<close> nor
  the backslash.
\<close>

definition last_path_segment :: "string \<Rightarrow> string" where
  "last_path_segment x = rev (takeWhile (\<lambda>c. c \<noteq> CHR ''/'' \<and> c \<noteq> CHR 0x5C) (rev x))"

definition initialize_default_whitelist ::
  "CommandService \<Rightarrow> CommandWhitelistEntry list \<Rightarrow> CommandService" where
  "initialize_default_whitelist s platform_commands =
     fold (\<lambda>entry s'. s'\<lparr>whitelist := dict_set (whitelist s') (base_command (command entry)) entry\<rparr>)
          platform_commands s"

text \<open>
  \<open>CommandService.__init__(shell, default_timeout)\<close>; the platform's entries come
  from \<open>get_platform_specific_commands()\<close> and are a parameter here.
\<close>

definition init_service ::
  "environment \<Rightarrow> string option \<Rightarrow> int \<Rightarrow> CommandWhitelistEntry list \<Rightarrow> CommandService" where
  "init_service env shell_arg timeout platform_commands =
     initialize_default_whitelist
       \<lparr>shell = (case shell_arg of
                   None \<Rightarrow> get_default_shell (sys_platform env) (environ env)
                 | Some sh \<Rightarrow> if sh = [] then get_default_shell (sys_platform env) (environ env)
                             else sh),
        whitelist = [],
        pending_commands = [],
        default_timeout = timeout,
        emitted = [],
        futures = [],
        timers = [],
        killed = []\<rparr>
       platform_commands"

section \<open>Validation\<close>

text \<open>
  The loop \<open>for idx, arg in enumerate(args)\<close> of \<open>_validate_command\<close>, from position
  \<open>idx\<close> on: \<open>Some level\<close> when the loop returns \<open>level\<close>, \<open>None\<close> when it runs
  to its end.
\<close>

fun check_args :: "string list \<Rightarrow> nat \<Rightarrow> string list \<Rightarrow> CommandSecurityLevel option" where
  "check_args allowed idx [] = None"
| "check_args allowed idx (arg # rest) =
     (case (if idx < length allowed then Some (allowed ! idx) else None) of
        None \<Rightarrow> Some REQUIRES_APPROVAL
      | Some pat \<Rightarrow>
          if arg \<noteq> pat then Some REQUIRES_APPROVAL
          else check_args allowed (Suc idx) rest)"

text \<open>
  \<open>if entry.allowed_args:\<close> tests the truth value of an optional list: \<open>None\<close>
  and the empty list are both false.
\<close>

definition validate_command ::
  "CommandService \<Rightarrow> string \<Rightarrow> string list \<Rightarrow> CommandSecurityLevel option" where
  "validate_command s cmd args =
     (case dict_get (whitelist s) (base_command cmd) of
        None \<Rightarrow> None
      | Some entry \<Rightarrow>
          if security_level entry = FORBIDDEN then Some FORBIDDEN
          else (case allowed_args entry of
                  None \<Rightarrow> Some (security_level entry)
                | Some allowed \<Rightarrow>
                    if allowed \<noteq> [] then
                      (if length args > length allowed then Some REQUIRES_APPROVAL
                       else (case check_args allowed 0 args of
                               Some level \<Rightarrow> Some level
                             | None \<Rightarrow> Some (security_level entry)))
                    else Some (security_level entry)))"


section \<open>The approval queue\<close>

text \<open>\<open>args = args or []\<close>.\<close>

definition args_or_empty :: "string list option \<Rightarrow> string list" where
  "args_or_empty args = (case args of None \<Rightarrow> [] | Some xs \<Rightarrow> xs)"

definition approval_timeout_message :: string where
  "approval_timeout_message =
     ''Command approval timed out. If you approved this command in the UI, ''
     @ ''please use get_pending_commands and approve_command to complete the process.''"

text \<open>
  The closure \<open>_timeout_check\<close> that both queue functions register, with the
  \<open>cmd_id\<close> it holds.
\<close>

definition timeout_check :: "CommandService \<Rightarrow> string \<Rightarrow> CommandService" where
  "timeout_check s cmd_id =
     (if dict_contains (pending_commands s) cmd_id
      then emit s ''command:approval_timeout''
             (ApprovalTimeoutPayload cmd_id approval_timeout_message)
      else s)"

text \<open>\<open>loop.call_later(delay, _timeout_check)\<close>.\<close>

definition call_later :: "CommandService \<Rightarrow> real \<Rightarrow> string \<Rightarrow> CommandService" where
  "call_later s delay cmd_id = s\<lparr>timers := timers s @ [(delay, cmd_id)]\<rparr>"

text \<open>
  The event loop running the callback that was registered first (all delays are equal,
  so callbacks come due in the order of registration).
\<close>

definition fire_timer :: "CommandService \<Rightarrow> CommandService" where
  "fire_timer s =
     (case timers s of
        [] \<Rightarrow> s
      | (delay, cmd_id) # rest \<Rightarrow> timeout_check (s\<lparr>timers := rest\<rparr>) cmd_id)"

text \<open>
  \<open>queue_command_for_approval_non_blocking\<close>; \<open>cmd_id\<close> is the value of
  \<open>str(uuid.uuid4())\<close> and \<open>now\<close> the reading of the loop's clock.
\<close>

definition queue_command_for_approval_non_blocking ::
  "CommandService \<Rightarrow> string \<Rightarrow> string list option \<Rightarrow> string option \<Rightarrow> string \<Rightarrow> real
     \<Rightarrow> string \<times> CommandService" where
  "queue_command_for_approval_non_blocking s cmd args who cmd_id now =
     (let pending = \<lparr>id_pc = cmd_id, command_pc = cmd, args_pc = args_or_empty args,
                      requested_at = now, requested_by = who,
                      resolve = NoopCallback, reject = NoopCallback\<rparr>;
          s1 = s\<lparr>pending_commands := dict_set (pending_commands s) cmd_id pending\<rparr>;
          s2 = emit s1 ''command:pending'' (PendingPayload pending);
          s3 = call_later s2 5 cmd_id
      in (cmd_id, s3))"

text \<open>
  \<open>_queue_command_for_approval\<close> up to \<open>return await fut\<close>: the address of the
  future the caller is left waiting on, and the state.
\<close>

definition queue_command_for_approval ::
  "CommandService \<Rightarrow> string \<Rightarrow> string list option \<Rightarrow> string option \<Rightarrow> string \<Rightarrow> real
     \<Rightarrow> nat \<times> CommandService" where
  "queue_command_for_approval s cmd args who cmd_id now =
     (let fut = length (futures s);
          s0 = s\<lparr>futures := futures s @ [FPending]\<rparr>;
          pending = \<lparr>id_pc = cmd_id, command_pc = cmd, args_pc = args_or_empty args,
                      requested_at = now, requested_by = who,
                      resolve = FutureCallback fut, reject = FutureCallback fut\<rparr>;
          s1 = s0\<lparr>pending_commands := dict_set (pending_commands s0) cmd_id pending\<rparr>;
          s2 = emit s1 ''command:pending'' (PendingPayload pending);
          s3 = call_later s2 5 cmd_id
      in (fut, s3))"

section \<open>The executor\<close>

text \<open>
  The names bound at module level in \<open>command_service.py\<close>, by its imports and its
  class definitions. A name that is neither here nor a builtin raises \<open>NameError\<close>
  when the statement using it runs; \<open>contextlib\<close> is not a builtin.
\<close>

definition module_globals :: "string list" where
  "module_globals =
     [''annotations'', ''asyncio'', ''shlex'', ''uuid'', ''dataclass'', ''field'', ''Enum'',
      ''Callable'', ''Dict'', ''List'', ''Optional'', ''Sequence'', ''Tuple'',
      ''get_default_shell'', ''PlatformType'', ''detect_platform'',
      ''EventEmitter'', ''CommandSecurityLevel'', ''CommandWhitelistEntry'',
      ''CommandResult'', ''PendingCommand'', ''CommandService'']"

definition load_global :: "string \<Rightarrow> error + unit" where
  "load_global name =
     (if name \<in> set module_globals then Inr ()
      else Inl (NameError (''name '' @ [CHR 0x27] @ name @ [CHR 0x27] @ '' is not defined'')))"

text \<open>
  \<open>asyncio.wait_for(proc.communicate(), timeout=timeout_sec)\<close> raises
  \<open>TimeoutError\<close> when the deadline passes before \<open>communicate()\<close> returns; a
  deadline that is not in the future always passes first.
\<close>

definition wait_for_times_out :: "child_process \<Rightarrow> real \<Rightarrow> bool" where
  "wait_for_times_out proc timeout_sec =
     (case completes_after proc of
        None \<Rightarrow> True
      | Some d \<Rightarrow> timeout_sec \<le> 0 \<or> timeout_sec < d)"

text \<open>\<open>b.decode(errors="replace") if b else ""\<close>.\<close>

definition decode_output :: "byte list \<Rightarrow> error + unicode" where
  "decode_output b = (if b \<noteq> [] then decode Replace b else Inr [])"

text \<open>The value of the local \<open>shell_cmd\<close> of \<open>_run_now\<close>.\<close>

definition shell_cmd :: "environment \<Rightarrow> CommandService \<Rightarrow> string \<Rightarrow> string list \<Rightarrow> string list" where
  "shell_cmd env s cmd args =
     (let platform = detect_platform (sys_platform env);
          cmdline = join_str '' '' (shlex_quote cmd # map shlex_quote args)
      in if platform = WINDOWS then [shell s, ''/c'', cmdline]
         else [shell s, ''-c'', cmdline])"

text \<open>
  The conversion of an \<open>int\<close> to a \<open>float\<close> that \<open>n / 1000.0\<close> starts with. It
  raises \<open>OverflowError\<close> when \<open>n\<close>, rounded to 53 bits, is out of the range of a
  double, that is from \<open>2 ^ 1024 - 2 ^ 970\<close> on in absolute value. The float stands
  for the number it approximates.
\<close>

definition int_to_float :: "int \<Rightarrow> error + real" where
  "int_to_float n =
     (if \<bar>n\<bar> < 2 ^ 1024 - 2 ^ 970 then Inr (real_of_int n)
      else Inl (OverflowError ''int too large to convert to float''))"

text \<open>
  The value of the local \<open>timeout_sec\<close> of \<open>_run_now\<close> (milliseconds to seconds),
  or the error that computing it raises.
\<close>

definition timeout_sec :: "CommandService \<Rightarrow> int option \<Rightarrow> error + real" where
  "timeout_sec s timeout =
     (case int_to_float (case timeout of Some t \<Rightarrow> t | None \<Rightarrow> default_timeout s) of
        Inl e \<Rightarrow> Inl e
      | Inr x \<Rightarrow> Inr (x / 1000))"

definition run_now ::
  "environment \<Rightarrow> CommandService \<Rightarrow> string \<Rightarrow> string list \<Rightarrow> int option
     \<Rightarrow> (error + CommandResult) \<times> CommandService" where
  "run_now env s cmd args timeout =
     (case timeout_sec s timeout of
        Inl e \<Rightarrow> (Inl e, s)
      | Inr deadline \<Rightarrow>
          (case create_subprocess_exec env (shell_cmd env s cmd args) of
             SpawnFails e \<Rightarrow> (Inl e, s)
           | Spawns proc \<Rightarrow>
               if wait_for_times_out proc deadline then
                 (case load_global ''contextlib'' of
                    Inl e \<Rightarrow> (Inl e, s)
                  | Inr _ \<Rightarrow>
                      (Inl (RuntimeError ''Command execution failed: timeout''),
                       s\<lparr>killed := killed s @ [shell_cmd env s cmd args]\<rparr>))
               else
                 (case decode_output (stdout_b proc) of
                    Inl e \<Rightarrow> (Inl e, s)
                  | Inr out \<Rightarrow>
                      (case decode_output (stderr_b proc) of
                         Inl e \<Rightarrow> (Inl e, s)
                       | Inr err \<Rightarrow> (Inr \<lparr>stdout = out, stderr = err\<rparr>, s)))))"

section \<open>Execution, approval and denial\<close>

text \<open>
  What a call of \<open>execute_command\<close> comes to: a result, or a caller left waiting on
  the future at an address (\<open>return await fut\<close>).
\<close>

datatype execution = Returned CommandResult | AwaitingFuture nat

definition execute_command ::
  "environment \<Rightarrow> CommandService \<Rightarrow> string \<Rightarrow> string list option \<Rightarrow> int option
     \<Rightarrow> string option \<Rightarrow> string \<Rightarrow> real \<Rightarrow> (error + execution) \<times> CommandService" where
  "execute_command env s cmd args timeout who cmd_id now =
     (let args1 = args_or_empty args in
      case validate_command s cmd args1 of
        None \<Rightarrow> (Inl (RuntimeError (''Command not whitelisted: '' @ cmd)), s)
      | Some FORBIDDEN \<Rightarrow> (Inl (RuntimeError (''Command is forbidden: '' @ cmd)), s)
      | Some REQUIRES_APPROVAL \<Rightarrow>
          (case queue_command_for_approval s cmd (Some args1) who cmd_id now of
             (fut, s1) \<Rightarrow> (Inr (AwaitingFuture fut), s1))
      | Some SAFE \<Rightarrow>
          (case run_now env s cmd args1 timeout of
             (Inl e, s1) \<Rightarrow> (Inl e, s1)
           | (Inr res, s1) \<Rightarrow> (Inr (Returned res), s1)))"

text \<open>
  \<open>approve_command\<close> has one suspension point, \<open>await self._run_now(...)\<close>.
  \<open>approve_command_begin\<close> is the method up to there: the error it raises, or the
  record it found and the state in which \<open>_run_now\<close> is started.
  \<open>approve_command_resume\<close> is what follows the await, given what \<open>_run_now\<close>
  returned or raised. \<open>approve_command\<close> is the whole call when nothing else runs
  during the await.
\<close>

definition approve_command_begin ::
  "CommandService \<Rightarrow> string \<Rightarrow> error + (PendingCommand \<times> CommandService)" where
  "approve_command_begin s command_id =
     (case dict_get (pending_commands s) command_id of
        None \<Rightarrow> Inl (RuntimeError (''No pending command with ID: '' @ command_id))
      | Some pending \<Rightarrow> Inr (pending, s))"

definition approve_command_resume ::
  "CommandService \<Rightarrow> string \<Rightarrow> PendingCommand \<Rightarrow> error + CommandResult
     \<Rightarrow> (error + CommandResult) \<times> CommandService" where
  "approve_command_resume s command_id pending outcome =
     (case outcome of
        Inr result \<Rightarrow>
          (let s1 = s\<lparr>pending_commands := dict_pop (pending_commands s) command_id\<rparr>;
               s2 = emit s1 ''command:approved''
                      (ApprovedPayload command_id (stdout result) (stderr result));
               s3 = call_resolve (resolve pending) result s2
           in (Inr result, s3))
      | Inl e \<Rightarrow>
          (let s1 = s\<lparr>pending_commands := dict_pop (pending_commands s) command_id\<rparr>;
               s2 = emit s1 ''command:failed'' (FailedPayload command_id e);
               s3 = call_reject (reject pending) e s2
           in (Inl e, s3)))"

definition approve_command ::
  "environment \<Rightarrow> CommandService \<Rightarrow> string \<Rightarrow> (error + CommandResult) \<times> CommandService" where
  "approve_command env s command_id =
     (case approve_command_begin s command_id of
        Inl e \<Rightarrow> (Inl e, s)
      | Inr (pending, s0) \<Rightarrow>
          (case run_now env s0 (command_pc pending) (args_pc pending) None of
             (outcome, s1) \<Rightarrow> approve_command_resume s1 command_id pending outcome))"

text \<open>\<open>deny_command(command_id, reason="Command denied")\<close>.\<close>

definition deny_command ::
  "CommandService \<Rightarrow> string \<Rightarrow> string option \<Rightarrow> (error + unit) \<times> CommandService" where
  "deny_command s command_id reason_arg =
     (let reason = (case reason_arg of None \<Rightarrow> ''Command denied'' | Some r \<Rightarrow> r) in
      case dict_get (pending_commands s) command_id of
        None \<Rightarrow> (Inl (RuntimeError (''No pending command with ID: '' @ command_id)), s)
      | Some pending \<Rightarrow>
          (let s1 = s\<lparr>pending_commands := dict_pop (pending_commands s) command_id\<rparr>;
               s2 = emit s1 ''command:denied'' (DeniedPayload command_id reason);
               s3 = call_reject (reject pending) (RuntimeError reason) s2
           in (Inr (), s3)))"


section \<open>Reachable states\<close>

text \<open>
  What holds of the pending mapping, the futures and the approvals in flight (calls of
  \<open>approve_command\<close> that are past their lookup and wait for \<open>_run_now\<close>): every
  record is stored under its own id, its two closures share one future, that future
  exists and, while the record is pending, is unfulfilled; and no two records under
  different ids share a future.
\<close>

definition queue_inv :: "CommandService \<Rightarrow> (string \<times> PendingCommand) list \<Rightarrow> bool" where
  "queue_inv s inflight \<longleftrightarrow>
     (\<forall>k q. (k, q) \<in> set (pending_commands s) \<longrightarrow>
        id_pc q = k \<and> resolve q = reject q
        \<and> (\<forall>a. reject q = FutureCallback a \<longrightarrow>
              a < length (futures s) \<and> futures s ! a = FPending))
   \<and> (\<forall>k q. (k, q) \<in> set inflight \<longrightarrow>
        resolve q = reject q
        \<and> (\<forall>a. reject q = FutureCallback a \<longrightarrow> a < length (futures s)))
   \<and> (\<forall>k q k' q' a.
        ((k, q) \<in> set (pending_commands s) \<or> (k, q) \<in> set inflight)
        \<and> (k', q') \<in> set (pending_commands s)
        \<and> reject q = FutureCallback a \<and> reject q' = FutureCallback a \<longrightarrow> k = k')"

text \<open>
  The states the service can get into, with the approvals in flight: from a fresh
  service, by the public methods, the timer callbacks coming due, and the two halves of
  \<open>approve_command\<close> with anything else in between, whatever \<open>_run_now\<close> gives.
\<close>

inductive reachable ::
  "environment \<Rightarrow> CommandService \<Rightarrow> (string \<times> PendingCommand) list \<Rightarrow> bool"
  for env :: environment where
  init: "reachable env (init_service env sh t cmds) []"
| add: "reachable env s I \<Longrightarrow> reachable env (add_to_whitelist s entry) I"
| remove: "reachable env s I \<Longrightarrow> reachable env (remove_from_whitelist s cmd) I"
| update: "reachable env s I \<Longrightarrow> reachable env (update_security_level s cmd level) I"
| execute:
    "reachable env s I \<Longrightarrow>
     reachable env (snd (execute_command env s cmd args timeout who cmd_id now)) I"
| queue:
    "reachable env s I \<Longrightarrow>
     reachable env (snd (queue_command_for_approval_non_blocking s cmd args who cmd_id now)) I"
| timer: "reachable env s I \<Longrightarrow> reachable env (fire_timer s) I"
| deny: "reachable env s I \<Longrightarrow> reachable env (snd (deny_command s k r)) I"
| approve_begin:
    "reachable env s I \<Longrightarrow> approve_command_begin s k = Inr (p, s') \<Longrightarrow>
     reachable env s' ((k, p) # I)"
| approve_run:
    "reachable env s I \<Longrightarrow> reachable env (snd (run_now env s cmd args timeout)) I"
| approve_resume:
    "reachable env s I \<Longrightarrow> (k, p) \<in> set I \<Longrightarrow>
     reachable env (snd (approve_command_resume s k p outcome)) (remove1 (k, p) I)"

section \<open>Example states\<close>

text \<open>A service with an empty whitelist and nothing pending, on \<open>/bin/sh\<close>.\<close>

definition service0 :: CommandService where
  "service0 = \<lparr>shell = ''/bin/sh'', whitelist = [], pending_commands = [],
                default_timeout = 30000, emitted = [], futures = [], timers = [],
                killed = []\<rparr>"

definition entry_of :: "string \<Rightarrow> CommandSecurityLevel \<Rightarrow> string list option \<Rightarrow> CommandWhitelistEntry" where
  "entry_of cmd level pats =
     \<lparr>command = cmd, security_level = level, allowed_args = pats, description = None\<rparr>"

text \<open>
  An environment on the given platform, with no environment variables, in which every
  \<open>create_subprocess_exec\<close> comes out the same way.
\<close>

definition env_of :: "string \<Rightarrow> spawn_result \<Rightarrow> environment" where
  "env_of platform r =
     \<lparr>sys_platform = platform, environ = Map.empty, create_subprocess_exec = (\<lambda>argv. r)\<rparr>"

text \<open>A child with the given exit status, output and running time.\<close>

definition child_of :: "int \<Rightarrow> byte list \<Rightarrow> byte list \<Rightarrow> real option \<Rightarrow> child_process" where
  "child_of code out err d =
     \<lparr>exit_status = code, stdout_b = out, stderr_b = err, completes_after = d\<rparr>"

text \<open>A pending record as the queue functions build it, requested at time 0 by nobody.\<close>

definition pending_of :: "string \<Rightarrow> string \<Rightarrow> string list \<Rightarrow> callback \<Rightarrow> PendingCommand" where
  "pending_of cmd_id cmd args cb =
     \<lparr>id_pc = cmd_id, command_pc = cmd, args_pc = args, requested_at = 0,
      requested_by = None, resolve = cb, reject = cb\<rparr>"

text \<open>
  A service on which \<open>mkdir d\<close> has been queued in blocking mode under the id
  \<open>id1\<close>, with a caller waiting on future 0.
\<close>

definition service_waiting :: CommandService where
  "service_waiting =
     snd (queue_command_for_approval
            (add_to_whitelist service0 (entry_of ''mkdir'' REQUIRES_APPROVAL None))
            ''mkdir'' (Some [''d'']) None ''id1'' 0)"

section \<open>Properties of the runtime pieces\<close>

lemma split_str_nonempty: "split_str sep s \<noteq> []"
  by (induction s) (auto split: list.splits)

lemma split_str_no_sep: "sep \<notin> set s \<Longrightarrow> split_str sep s = [s]"
  by (induction s) auto

lemma split_str_append: "split_str sep (a @ sep # b) = split_str sep a @ split_str sep b"
  by (induction a) (auto simp: split_str_nonempty split: list.splits)

lemma last_split_str_append: "last (split_str sep (a @ sep # b)) = last (split_str sep b)"
  by (simp add: split_str_append split_str_nonempty)

text \<open>The last piece of a split is what follows the last separator.\<close>

lemma last_split_str: "last (split_str sep s) = rev (takeWhile (\<lambda>c. c \<noteq> sep) (rev s))"
proof (cases "sep \<in> set s")
  case False
  then have tw: "takeWhile (\<lambda>c. c \<noteq> sep) (rev s) = rev s"
    by auto
  from False show ?thesis by (simp add: split_str_no_sep tw)
next
  case True
  then obtain ys zs where s: "s = ys @ sep # zs" and z: "sep \<notin> set zs"
    by (meson split_list_last)
  have "takeWhile (\<lambda>c. c \<noteq> sep) (rev zs @ sep # rev ys)
          = rev zs @ takeWhile (\<lambda>c. c \<noteq> sep) (sep # rev ys)"
    by (rule takeWhile_append2) (use z in auto)
  then have tw: "takeWhile (\<lambda>c. c \<noteq> sep) (rev zs @ sep # rev ys) = rev zs"
    by simp
  from s z show ?thesis
    by (simp add: last_split_str_append split_str_no_sep tw)
qed

lemma takeWhile_takeWhile: "takeWhile P (takeWhile Q xs) = takeWhile (\<lambda>x. P x \<and> Q x) xs"
  by (induction xs) auto

lemma base_command_last_path_segment: "base_command x = last_path_segment x"
  by (simp add: base_command_def last_path_segment_def last_split_str takeWhile_takeWhile)

lemma dict_get_set: "dict_get (dict_set d k v) k' = (if k' = k then Some v else dict_get d k')"
  by (simp add: dict_get_def dict_set_def update_conv')

lemma dict_get_pop: "dict_get (dict_pop d k) k' = (if k' = k then None else dict_get d k')"
  by (simp add: dict_get_def dict_pop_def delete_conv')

section \<open>Properties of the validator\<close>

lemma check_args_None:
  "check_args allowed idx args = None \<longleftrightarrow>
     (\<forall>i<length args. idx + i < length allowed \<and> args ! i = allowed ! (idx + i))"
proof (induction args arbitrary: idx)
  case Nil
  then show ?case by simp
next
  case (Cons a args)
  show ?case
    by (simp add: Cons.IH) (auto simp: less_Suc_eq_0_disj)
qed

lemma check_args_result: "check_args allowed idx args = Some l \<Longrightarrow> l = REQUIRES_APPROVAL"
  by (induction args arbitrary: idx) (auto split: if_splits)

lemma check_args_cases:
  "check_args allowed 0 args =
     (if \<forall>i<length args. i < length allowed \<and> args ! i = allowed ! i then None
      else Some REQUIRES_APPROVAL)"
proof (cases "check_args allowed 0 args")
  case None
  then show ?thesis using check_args_None [of allowed 0 args] by simp
next
  case (Some l)
  then have "l = REQUIRES_APPROVAL" by (rule check_args_result)
  moreover from Some have "\<not> (\<forall>i<length args. i < length allowed \<and> args ! i = allowed ! i)"
    using check_args_None [of allowed 0 args] by simp
  ultimately show ?thesis using Some by simp
qed

lemma validate_command_found:
  "dict_get (whitelist s) (base_command cmd) = Some entry \<Longrightarrow>
   validate_command s cmd args =
     (if security_level entry = FORBIDDEN then Some FORBIDDEN
      else (case allowed_args entry of
              None \<Rightarrow> Some (security_level entry)
            | Some allowed \<Rightarrow>
                if allowed \<noteq> [] then
                  (if length args > length allowed then Some REQUIRES_APPROVAL
                   else (case check_args allowed 0 args of
                           Some level \<Rightarrow> Some level
                         | None \<Rightarrow> Some (security_level entry)))
                else Some (security_level entry)))"
  by (simp add: validate_command_def)

text \<open>
  C1, as the code has it. For an entry that is not FORBIDDEN and whose \<open>allowed_args\<close>
  is a non-empty list: more arguments than patterns gives REQUIRES_APPROVAL whatever the
  entry's level; an argument that differs from the pattern at its position gives
  REQUIRES_APPROVAL; when there are no more arguments than patterns and each argument
  equals its pattern the result is the entry's own level; and an entry whose own level
  is not REQUIRES_APPROVAL gets its own level only then.
\<close>

theorem validate_command_allowed_args:
  assumes "dict_get (whitelist s) (base_command cmd) = Some entry"
    and "security_level entry \<noteq> FORBIDDEN"
    and "allowed_args entry = Some allowed"
    and "allowed \<noteq> []"
  shows "(length allowed < length args \<longrightarrow>
            validate_command s cmd args = Some REQUIRES_APPROVAL)
       \<and> ((\<exists>i<length args. i < length allowed \<and> args ! i \<noteq> allowed ! i) \<longrightarrow>
            validate_command s cmd args = Some REQUIRES_APPROVAL)
       \<and> (length args \<le> length allowed \<and> (\<forall>i<length args. args ! i = allowed ! i) \<longrightarrow>
            validate_command s cmd args = Some (security_level entry))
       \<and> (validate_command s cmd args = Some (security_level entry)
            \<and> security_level entry \<noteq> REQUIRES_APPROVAL \<longrightarrow>
            length args \<le> length allowed \<and> (\<forall>i<length args. args ! i = allowed ! i))"
  using assms
  by (auto simp: validate_command_found check_args_cases)

text \<open>
  C1, witness: \<open>git\<close> whitelisted as SAFE with the one pattern \<open>status\<close>. The
  matching call is SAFE; one argument more, or another argument, needs approval.
\<close>

theorem validate_command_allowed_args_witness:
  "validate_command (add_to_whitelist service0 (entry_of ''git'' SAFE (Some [''status''])))
     ''/usr/bin/git'' [''status''] = Some SAFE
   \<and> validate_command (add_to_whitelist service0 (entry_of ''git'' SAFE (Some [''status''])))
     ''/usr/bin/git'' [''status'', ''-s''] = Some REQUIRES_APPROVAL
   \<and> validate_command (add_to_whitelist service0 (entry_of ''git'' SAFE (Some [''status''])))
     ''/usr/bin/git'' [''log''] = Some REQUIRES_APPROVAL"
proof -
  let ?e = "entry_of ''git'' SAFE (Some [''status''])"
  let ?s = "add_to_whitelist service0 ?e"
  have found: "dict_get (whitelist ?s) (base_command ''/usr/bin/git'') = Some ?e"
    by (simp add: add_to_whitelist_def service0_def entry_of_def dict_get_set base_command_def)
  have level: "security_level ?e \<noteq> FORBIDDEN"
    by (simp add: entry_of_def)
  have pats: "allowed_args ?e = Some [''status'']"
    by (simp add: entry_of_def)
  have nonempty: "[''status''] \<noteq> []"
    by simp
  have own: "security_level ?e = SAFE"
    by (simp add: entry_of_def)
  note va = validate_command_allowed_args [OF found level pats nonempty]
  from va [of "[''status'']"] own
  have a: "validate_command ?s ''/usr/bin/git'' [''status''] = Some SAFE"
    by simp
  from va [of "[''status'', ''-s'']"]
  have b: "validate_command ?s ''/usr/bin/git'' [''status'', ''-s''] = Some REQUIRES_APPROVAL"
    by simp
  from va [of "[''log'']"]
  have c: "validate_command ?s ''/usr/bin/git'' [''log''] = Some REQUIRES_APPROVAL"
    by simp
  from a b c show ?thesis by simp
qed

text \<open>
  C1, counterexample to the claim as stated: with \<open>allowed_args\<close> set to the empty
  list, one argument is more than the patterns have positions, yet a SAFE entry is
  classified SAFE, not REQUIRES_APPROVAL.
\<close>

theorem validate_command_allowed_args_counterexample:
  "dict_get (whitelist (add_to_whitelist service0 (entry_of ''echo'' SAFE (Some []))))
     (base_command ''echo'') = Some (entry_of ''echo'' SAFE (Some []))
   \<and> security_level (entry_of ''echo'' SAFE (Some [])) \<noteq> FORBIDDEN
   \<and> allowed_args (entry_of ''echo'' SAFE (Some [])) = Some []
   \<and> length ([] :: string list) < length [''x'']
   \<and> validate_command (add_to_whitelist service0 (entry_of ''echo'' SAFE (Some [])))
        ''echo'' [''x''] = Some SAFE
   \<and> validate_command (add_to_whitelist service0 (entry_of ''echo'' SAFE (Some [])))
        ''echo'' [''x''] \<noteq> Some REQUIRES_APPROVAL"
  by (simp add: validate_command_def add_to_whitelist_def service0_def entry_of_def
      dict_get_set base_command_def)

text \<open>
  C10. For an entry that is not FORBIDDEN and whose \<open>allowed_args\<close> is the empty
  list, every argument list is classified at the entry's own level, which is also what
  the same entry with \<open>allowed_args\<close> absent gives.
\<close>

theorem validate_command_empty_allowed_args:
  assumes "dict_get (whitelist s) (base_command cmd) = Some entry"
    and "security_level entry \<noteq> FORBIDDEN"
    and "allowed_args entry = Some []"
  shows "validate_command s cmd args = Some (security_level entry)
       \<and> validate_command s cmd args =
           validate_command
             (s\<lparr>whitelist := dict_set (whitelist s) (base_command cmd)
                                (entry\<lparr>allowed_args := None\<rparr>)\<rparr>) cmd args"
  using assms
  by (simp add: validate_command_def dict_get_set)

text \<open>
  C10, witness: \<open>ls\<close> whitelisted as SAFE with an empty pattern list stays SAFE with
  two arguments.
\<close>

theorem validate_command_empty_allowed_args_witness:
  "validate_command (add_to_whitelist service0 (entry_of ''ls'' SAFE (Some [])))
     ''ls'' [''-l'', ''/tmp''] = Some SAFE"
proof -
  let ?e = "entry_of ''ls'' SAFE (Some [])"
  let ?s = "add_to_whitelist service0 ?e"
  have found: "dict_get (whitelist ?s) (base_command ''ls'') = Some ?e"
    by (simp add: add_to_whitelist_def service0_def entry_of_def dict_get_set base_command_def)
  have level: "security_level ?e \<noteq> FORBIDDEN"
    by (simp add: entry_of_def)
  have pats: "allowed_args ?e = Some []"
    by (simp add: entry_of_def)
  have own: "security_level ?e = SAFE"
    by (simp add: entry_of_def)
  from validate_command_empty_allowed_args [OF found level pats, of "[''-l'', ''/tmp'']"] own
  show ?thesis by simp
qed

lemma last_path_segment_idem: "last_path_segment (last_path_segment x) = last_path_segment x"
  by (simp add: last_path_segment_def takeWhile_takeWhile)

section \<open>Properties of \<open>execute_command\<close>\<close>

text \<open>
  C4. When the entry found under the command's base name is FORBIDDEN, classification
  is FORBIDDEN for every argument list (the entry's \<open>allowed_args\<close> plays no part),
  and \<open>execute_command\<close> raises the "forbidden" error and leaves the state as it
  was, whatever the arguments, the timeout and the requester.
\<close>

theorem execute_command_forbidden:
  assumes "dict_get (whitelist s) (base_command cmd) = Some entry"
    and "security_level entry = FORBIDDEN"
  shows "validate_command s cmd args = Some FORBIDDEN
       \<and> execute_command env s cmd args_opt timeout who cmd_id now
           = (Inl (RuntimeError (''Command is forbidden: '' @ cmd)), s)"
  using assms
  by (simp add: validate_command_def execute_command_def)

text \<open>
  C4, witness: \<open>rm\<close> is FORBIDDEN with a pattern list that the arguments match;
  \<open>/bin/rm -i\<close> is still refused.
\<close>

theorem execute_command_forbidden_witness:
  "execute_command (env_of ''linux'' (SpawnFails (OSError ''unused'')))
     (add_to_whitelist service0 (entry_of ''rm'' FORBIDDEN (Some [''-i''])))
     ''/bin/rm'' (Some [''-i'']) None None ''id1'' 0
   = (Inl (RuntimeError ''Command is forbidden: /bin/rm''),
      add_to_whitelist service0 (entry_of ''rm'' FORBIDDEN (Some [''-i''])))"
proof -
  let ?e = "entry_of ''rm'' FORBIDDEN (Some [''-i''])"
  let ?s = "add_to_whitelist service0 ?e"
  have found: "dict_get (whitelist ?s) (base_command ''/bin/rm'') = Some ?e"
    by (simp add: add_to_whitelist_def service0_def entry_of_def dict_get_set base_command_def)
  have level: "security_level ?e = FORBIDDEN"
    by (simp add: entry_of_def)
  from execute_command_forbidden [OF found level]
  show ?thesis by simp
qed

text \<open>
  C5. The name that classification looks up is the last path segment of the command
  under either separator, so a command is classified as its base name is; and when the
  registry has no entry for that name, \<open>execute_command\<close> raises the "not
  whitelisted" error for every argument list and leaves the state, and with it the
  pending mapping, as it was.
\<close>

theorem execute_command_not_whitelisted:
  "base_command cmd = last_path_segment cmd
   \<and> validate_command s cmd args = validate_command s (last_path_segment cmd) args
   \<and> (dict_get (whitelist s) (last_path_segment cmd) = None \<longrightarrow>
        validate_command s cmd args = None
        \<and> execute_command env s cmd args_opt timeout who cmd_id now
            = (Inl (RuntimeError (''Command not whitelisted: '' @ cmd)), s)
        \<and> pending_commands (snd (execute_command env s cmd args_opt timeout who cmd_id now))
            = pending_commands s)"
  by (simp add: validate_command_def execute_command_def base_command_last_path_segment
      last_path_segment_idem)

text \<open>C5, witness: \<open>/usr/bin/nope\<close> on a service that only knows \<open>ls\<close>.\<close>

theorem execute_command_not_whitelisted_witness:
  "last_path_segment ''/usr/bin/nope'' = ''nope''
   \<and> execute_command (env_of ''linux'' (SpawnFails (OSError ''unused'')))
     (add_to_whitelist service0 (entry_of ''ls'' SAFE None))
     ''/usr/bin/nope'' (Some [''x'']) None None ''id1'' 0
   = (Inl (RuntimeError ''Command not whitelisted: /usr/bin/nope''),
      add_to_whitelist service0 (entry_of ''ls'' SAFE None))"
proof -
  let ?s = "add_to_whitelist service0 (entry_of ''ls'' SAFE None)"
  have seg: "last_path_segment ''/usr/bin/nope'' = ''nope''"
    by (simp add: last_path_segment_def)
  have absent: "dict_get (whitelist ?s) (last_path_segment ''/usr/bin/nope'') = None"
    by (simp add: seg add_to_whitelist_def service0_def entry_of_def dict_get_set)
      (simp add: dict_get_def)
  from execute_command_not_whitelisted [of "''/usr/bin/nope''" ?s] absent seg
  show ?thesis by simp
qed

section \<open>Properties of the registry\<close>

text \<open>
  The entry added last under a name is the one found under that name, and for a name
  without a path prefix that is the name classification looks up.
\<close>

lemma add_to_whitelist_overwrites:
  "dict_get (whitelist (add_to_whitelist s entry)) (command entry) = Some entry"
  by (simp add: add_to_whitelist_def dict_get_set)

lemma base_command_bare:
  "CHR ''/'' \<notin> set x \<Longrightarrow> CHR 0x5C \<notin> set x \<Longrightarrow> base_command x = x"
  by (simp add: base_command_def split_str_no_sep)

lemma add_to_whitelist_bare_forbidden:
  assumes "CHR ''/'' \<notin> set (command e2)" and "CHR 0x5C \<notin> set (command e2)"
    and "security_level e2 = FORBIDDEN"
  shows "execute_command env (add_to_whitelist (add_to_whitelist s e1) e2) (command e2) args_opt
           timeout who cmd_id now
         = (Inl (RuntimeError (''Command is forbidden: '' @ command e2)),
            add_to_whitelist (add_to_whitelist s e1) e2)"
  using assms
  by (simp add: validate_command_def execute_command_def base_command_bare add_to_whitelist_overwrites)

text \<open>
  C6, the code at an entry whose command has a path prefix. The seeding of the registry
  stores \<open>/bin/echo\<close> under \<open>echo\<close>; \<open>add_to_whitelist\<close> stores it under
  \<open>/bin/echo\<close>, a key that classification never looks up. So after \<open>/bin/echo\<close>
  is added as SAFE and then as FORBIDDEN, \<open>/bin/echo\<close> is still classified by the
  seeded entry \<open>echo\<close> (SAFE), and on a registry without that entry
  \<open>execute_command\<close> reports it as not whitelisted rather than forbidden.
\<close>

theorem add_to_whitelist_path_not_normalized:
  "whitelist (initialize_default_whitelist service0 [entry_of ''/bin/echo'' SAFE None])
     = [(''echo'', entry_of ''/bin/echo'' SAFE None)]
   \<and> whitelist (add_to_whitelist service0 (entry_of ''/bin/echo'' SAFE None))
     = [(''/bin/echo'', entry_of ''/bin/echo'' SAFE None)]
   \<and> whitelist (add_to_whitelist
                  (add_to_whitelist (initialize_default_whitelist service0 [entry_of ''echo'' SAFE None])
                     (entry_of ''/bin/echo'' SAFE None))
                  (entry_of ''/bin/echo'' FORBIDDEN None))
     = [(''echo'', entry_of ''echo'' SAFE None), (''/bin/echo'', entry_of ''/bin/echo'' FORBIDDEN None)]
   \<and> validate_command
        (add_to_whitelist
           (add_to_whitelist (initialize_default_whitelist service0 [entry_of ''echo'' SAFE None])
              (entry_of ''/bin/echo'' SAFE None))
           (entry_of ''/bin/echo'' FORBIDDEN None))
        ''/bin/echo'' [] = Some SAFE
   \<and> fst (execute_command (env_of ''linux'' (SpawnFails (OSError ''unused'')))
        (add_to_whitelist (add_to_whitelist service0 (entry_of ''/bin/echo'' SAFE None))
           (entry_of ''/bin/echo'' FORBIDDEN None))
        ''/bin/echo'' (Some []) None None ''id1'' 0)
     = Inl (RuntimeError ''Command not whitelisted: /bin/echo'')"
  by (simp add: initialize_default_whitelist_def add_to_whitelist_def service0_def entry_of_def
      dict_set_def dict_get_def base_command_def validate_command_def execute_command_def
      args_or_empty_def)

section \<open>Properties of the executor\<close>







text \<open>
  \<open>_run_now\<close> once the child is spawned. In the timeout branch the handler's first
  statement reads the global \<open>contextlib\<close>, which the module never binds.
\<close>

lemma timeout_sec_cases:
  "timeout_sec s timeout =
     (let n = (case timeout of Some t \<Rightarrow> t | None \<Rightarrow> default_timeout s)
      in if \<bar>n\<bar> < 2 ^ 1024 - 2 ^ 970 then Inr (real_of_int n / 1000)
         else Inl (OverflowError ''int too large to convert to float''))"
  by (simp add: timeout_sec_def int_to_float_def Let_def)

text \<open>A timeout too large for a float: the error is raised before anything is spawned.\<close>

lemma run_now_timeout_overflow:
  "timeout_sec s timeout = Inl e \<Longrightarrow> run_now env s cmd args timeout = (Inl e, s)"
  by (simp add: run_now_def)

lemma run_now_overflow_example:
  "run_now env service0 ''echo'' [] (Some (10 ^ 400))
     = (Inl (OverflowError ''int too large to convert to float''), service0)"
  by (simp add: run_now_def timeout_sec_cases)




text \<open>
  C3, the code at a command that outlives its timeout: a child that needs ten seconds
  under a per-call timeout of 100 ms, and a child that never ends under the default
  timeout. \<open>_run_now\<close> raises \<open>NameError\<close>, not the timeout error, and no child
  is killed; \<open>execute_command\<close> passes the \<open>NameError\<close> on.
\<close>

theorem run_now_timeout_name_error:
  "run_now (env_of ''linux'' (Spawns (child_of 0 [] [] (Some 10))))
     service0 ''sleep'' [''10''] (Some 100)
   = (Inl (NameError ''name 'contextlib' is not defined''), service0)
   \<and> killed (snd (run_now (env_of ''linux'' (Spawns (child_of 0 [] [] (Some 10))))
                  service0 ''sleep'' [''10''] (Some 100))) = []
   \<and> run_now (env_of ''linux'' (Spawns (child_of 0 [] [] None)))
        service0 ''sleep'' [''infinity''] None
      = (Inl (NameError ''name 'contextlib' is not defined''), service0)
   \<and> execute_command (env_of ''linux'' (Spawns (child_of 0 [] [] (Some 10))))
        (add_to_whitelist service0 (entry_of ''sleep'' SAFE None))
        ''sleep'' (Some [''10'']) (Some 100) None ''id1'' 0
      = (Inl (NameError ''name 'contextlib' is not defined''),
         add_to_whitelist service0 (entry_of ''sleep'' SAFE None))"
  by (simp add: run_now_def env_of_def child_of_def wait_for_times_out_def timeout_sec_cases
      service0_def load_global_def module_globals_def execute_command_def validate_command_def
      add_to_whitelist_def entry_of_def dict_get_def dict_set_def base_command_def
      args_or_empty_def)

section \<open>Properties of the approval queue\<close>

text \<open>\<open>_run_now\<close> touches neither the mappings, nor the events, nor the futures.\<close>

lemma run_now_frame:
  "pending_commands (snd (run_now env s cmd args timeout)) = pending_commands s
   \<and> emitted (snd (run_now env s cmd args timeout)) = emitted s
   \<and> futures (snd (run_now env s cmd args timeout)) = futures s
   \<and> whitelist (snd (run_now env s cmd args timeout)) = whitelist s
   \<and> timers (snd (run_now env s cmd args timeout)) = timers s"
  by (simp add: run_now_def split: spawn_result.split sum.split)

lemma run_now_emitted:
  "fst (run_now env (s\<lparr>emitted := E\<rparr>) cmd args timeout) = fst (run_now env s cmd args timeout)"
proof -
  have sc: "shell_cmd env (s\<lparr>emitted := E\<rparr>) cmd args = shell_cmd env s cmd args"
    by (simp add: shell_cmd_def Let_def)
  have ts: "timeout_sec (s\<lparr>emitted := E\<rparr>) timeout = timeout_sec s timeout"
    by (simp add: timeout_sec_def split: option.split)
  show ?thesis
    by (cases "timeout_sec s timeout";
        cases "create_subprocess_exec env (shell_cmd env s cmd args)")
       (simp_all add: run_now_def sc ts split: sum.split)
qed

lemma approve_command_resume_result: "fst (approve_command_resume s k p outcome) = outcome"
  by (cases outcome) (simp_all add: approve_command_resume_def Let_def)

lemma approve_command_result:
  "fst (approve_command env s k) =
     (case dict_get (pending_commands s) k of
        None \<Rightarrow> Inl (RuntimeError (''No pending command with ID: '' @ k))
      | Some p \<Rightarrow> fst (run_now env s (command_pc p) (args_pc p) None))"
  by (cases "dict_get (pending_commands s) k")
     (simp_all add: approve_command_def approve_command_begin_def approve_command_resume_result
        split: prod.split)

lemma dict_values_pop:
  "dict_values (dict_pop d k) = map snd (filter (\<lambda>(k', v). k' \<noteq> k) d)"
  by (induction d) (auto simp: dict_values_def dict_pop_def)

text \<open>What the two closures of a pending record change.\<close>

lemma call_reject_frame:
  "pending_commands (call_reject cb e s) = pending_commands s
   \<and> emitted (call_reject cb e s) = emitted s
   \<and> whitelist (call_reject cb e s) = whitelist s
   \<and> timers (call_reject cb e s) = timers s"
  by (simp add: call_reject_def split: callback.split)

lemma call_resolve_frame:
  "pending_commands (call_resolve cb res s) = pending_commands s
   \<and> emitted (call_resolve cb res s) = emitted s
   \<and> whitelist (call_resolve cb res s) = whitelist s
   \<and> timers (call_resolve cb res s) = timers s"
  by (simp add: call_resolve_def split: callback.split)

lemma call_reject_futures:
  "futures (call_reject cb e s) =
     (case cb of
        NoopCallback \<Rightarrow> futures s
      | FutureCallback a \<Rightarrow>
          if a < length (futures s) \<and> futures s ! a = FPending
          then (futures s)[a := FException e] else futures s)"
  by (simp add: call_reject_def fut_done_def split: callback.split)

lemma call_resolve_futures:
  "futures (call_resolve cb res s) =
     (case cb of
        NoopCallback \<Rightarrow> futures s
      | FutureCallback a \<Rightarrow>
          if a < length (futures s) \<and> futures s ! a = FPending
          then (futures s)[a := FResult res] else futures s)"
  by (simp add: call_resolve_def fut_done_def split: callback.split)

lemma deny_command_absent:
  "dict_get (pending_commands s) cid = None \<Longrightarrow>
   deny_command s cid r = (Inl (RuntimeError (''No pending command with ID: '' @ cid)), s)"
  by (simp add: deny_command_def)

lemma deny_command_present:
  "dict_get (pending_commands s) cid = Some p \<Longrightarrow>
   deny_command s cid (Some reason)
     = (Inr (), call_reject (reject p) (RuntimeError reason)
                  (emit (s\<lparr>pending_commands := dict_pop (pending_commands s) cid\<rparr>)
                        ''command:denied'' (DeniedPayload cid reason)))"
  by (simp add: deny_command_def)

lemma approve_command_present:
  "dict_get (pending_commands s) cid = Some p \<Longrightarrow>
   approve_command env s cid
     = approve_command_resume (snd (run_now env s (command_pc p) (args_pc p) None)) cid p
         (fst (run_now env s (command_pc p) (args_pc p) None))"
  by (simp add: approve_command_def approve_command_begin_def split: prod.split)

lemma approve_command_resume_failure:
  "approve_command_resume s cid p (Inl e)
     = (Inl e, call_reject (reject p) e
                 (emit (s\<lparr>pending_commands := dict_pop (pending_commands s) cid\<rparr>)
                       ''command:failed'' (FailedPayload cid e)))"
  by (simp add: approve_command_resume_def)


text \<open>The example state, field by field.\<close>

lemma service_waiting_fields:
  "pending_commands service_waiting
     = [(''id1'', pending_of ''id1'' ''mkdir'' [''d''] (FutureCallback 0))]
   \<and> futures service_waiting = [FPending]
   \<and> emitted service_waiting
     = [(''command:pending'',
         PendingPayload (pending_of ''id1'' ''mkdir'' [''d''] (FutureCallback 0)))]
   \<and> timers service_waiting = [(5, ''id1'')]
   \<and> default_timeout service_waiting = 30000"
  by (simp add: service_waiting_def queue_command_for_approval_def add_to_whitelist_def
      service0_def entry_of_def pending_of_def emit_def call_later_def args_or_empty_def
      dict_set_def Let_def)

text \<open>
  C8. The timer callback changes nothing but the event log: the pending mapping and
  \<open>get_pending_commands\<close> are as before; it appends the \<open>approval_timeout\<close> event
  for its id exactly when the id is in the pending mapping at that moment. The loop
  running a due callback leaves the pending mapping alone as well. Both queue functions
  register the callback for their id with a delay of 5 seconds. After the callback,
  \<open>approve_command\<close> and \<open>deny_command\<close> answer for every id as they would have
  before it.
\<close>

theorem timeout_check_advisory:
  "pending_commands (timeout_check s cmd_id) = pending_commands s
   \<and> get_pending_commands (timeout_check s cmd_id) = get_pending_commands s
   \<and> emitted (timeout_check s cmd_id)
       = (if dict_contains (pending_commands s) cmd_id
          then emitted s @ [(''command:approval_timeout'',
                             ApprovalTimeoutPayload cmd_id approval_timeout_message)]
          else emitted s)
   \<and> timeout_check s cmd_id = s\<lparr>emitted := emitted (timeout_check s cmd_id)\<rparr>
   \<and> pending_commands (fire_timer s) = pending_commands s
   \<and> timers (snd (queue_command_for_approval_non_blocking s cmd args who cmd_id now))
       = timers s @ [(5, cmd_id)]
   \<and> timers (snd (queue_command_for_approval s cmd args who cmd_id now))
       = timers s @ [(5, cmd_id)]
   \<and> fst (approve_command env (timeout_check s cmd_id) k) = fst (approve_command env s k)
   \<and> fst (deny_command (timeout_check s cmd_id) k r) = fst (deny_command s k r)"
proof -
  have a: "timeout_check s cmd_id = s\<lparr>emitted := emitted (timeout_check s cmd_id)\<rparr>"
    by (simp add: timeout_check_def emit_def)
  have b: "pending_commands (timeout_check s cmd_id) = pending_commands s"
    by (simp add: timeout_check_def emit_def)
  have c: "pending_commands (fire_timer s) = pending_commands s"
    by (simp add: fire_timer_def timeout_check_def emit_def split: list.split)
  have d: "emitted (timeout_check s cmd_id)
       = (if dict_contains (pending_commands s) cmd_id
          then emitted s @ [(''command:approval_timeout'',
                             ApprovalTimeoutPayload cmd_id approval_timeout_message)]
          else emitted s)"
    by (simp add: timeout_check_def emit_def)
  have "fst (run_now env (timeout_check s cmd_id) c' a' None) = fst (run_now env s c' a' None)"
    for c' a'
    by (subst a) (rule run_now_emitted)
  then have e: "fst (approve_command env (timeout_check s cmd_id) k)
                  = fst (approve_command env s k)"
    by (simp add: approve_command_result b split: option.split)
  have f: "fst (deny_command (timeout_check s cmd_id) k r) = fst (deny_command s k r)"
    by (simp add: deny_command_def b Let_def split: option.split)
  have g: "timers (snd (queue_command_for_approval_non_blocking s cmd args who cmd_id now))
       = timers s @ [(5, cmd_id)]"
    by (simp add: queue_command_for_approval_non_blocking_def call_later_def emit_def Let_def)
  have h: "timers (snd (queue_command_for_approval s cmd args who cmd_id now))
       = timers s @ [(5, cmd_id)]"
    by (simp add: queue_command_for_approval_def call_later_def emit_def Let_def)
  from a b c d e f g h show ?thesis
    by (simp add: get_pending_commands_def)
qed

text \<open>
  C8, witness: \<open>mkdir d\<close> queued without blocking under \<open>id1\<close>; the callback
  adds the advisory event and the record stays listed. On a service with nothing
  pending the callback emits nothing.
\<close>

theorem timeout_check_advisory_witness:
  "emitted (timeout_check
      (snd (queue_command_for_approval_non_blocking service0 ''mkdir'' (Some [''d'']) None ''id1'' 0))
      ''id1'')
   = [(''command:pending'', PendingPayload (pending_of ''id1'' ''mkdir'' [''d''] NoopCallback)),
      (''command:approval_timeout'', ApprovalTimeoutPayload ''id1'' approval_timeout_message)]
   \<and> get_pending_commands (timeout_check
      (snd (queue_command_for_approval_non_blocking service0 ''mkdir'' (Some [''d'']) None ''id1'' 0))
      ''id1'')
   = [pending_of ''id1'' ''mkdir'' [''d''] NoopCallback]
   \<and> emitted (timeout_check service0 ''id1'') = []"
proof -
  let ?s = "snd (queue_command_for_approval_non_blocking service0 ''mkdir'' (Some [''d'']) None ''id1'' 0)"
  have present: "dict_contains (pending_commands ?s) ''id1''"
    by (simp add: queue_command_for_approval_non_blocking_def call_later_def emit_def Let_def
        service0_def dict_contains_def dict_set_def)
  have absent: "\<not> dict_contains (pending_commands service0) ''id1''"
    by (simp add: service0_def dict_contains_def)
  have ev: "emitted ?s
    = [(''command:pending'', PendingPayload (pending_of ''id1'' ''mkdir'' [''d''] NoopCallback))]"
    by (simp add: queue_command_for_approval_non_blocking_def call_later_def emit_def Let_def
        service0_def pending_of_def args_or_empty_def)
  have pc: "get_pending_commands ?s = [pending_of ''id1'' ''mkdir'' [''d''] NoopCallback]"
    by (simp add: queue_command_for_approval_non_blocking_def call_later_def emit_def Let_def
        service0_def pending_of_def args_or_empty_def get_pending_commands_def dict_values_def
        dict_set_def)
  have ev0: "emitted service0 = []"
    by (simp add: service0_def)
  from timeout_check_advisory [of ?s "''id1''"] timeout_check_advisory [of service0 "''id1''"]
    present absent ev pc ev0
  show ?thesis by simp
qed

section \<open>The queue invariant\<close>

lemma set_dict_pop: "set (dict_pop d k) = {(k', v). (k', v) \<in> set d \<and> k' \<noteq> k}"
  by (auto simp: dict_pop_def AList.delete_eq)

lemma set_dict_set: "set (dict_set d k v) \<subseteq> insert (k, v) (set d)"
  by (induction d) (auto simp: dict_set_def)

lemma dict_get_in_set: "dict_get d k = Some v \<Longrightarrow> (k, v) \<in> set d"
  by (simp add: dict_get_def map_of_SomeD)

lemma queue_inv_frame:
  "queue_inv s I \<Longrightarrow> pending_commands s' = pending_commands s \<Longrightarrow> futures s' = futures s
   \<Longrightarrow> queue_inv s' I"
  by (simp add: queue_inv_def)

lemma queue_inv_settle:
  assumes inv: "queue_inv s I"
    and who: "(k, p) \<in> set (pending_commands s) \<or> (k, p) \<in> set I"
    and pend: "pending_commands s' = dict_pop (pending_commands s) k"
    and futs: "futures s' = futures s \<or> (\<exists>a v. resolve p = FutureCallback a
                 \<and> futures s' = (futures s)[a := v])"
    and sub: "set I' \<subseteq> set I"
  shows "queue_inv s' I'"
proof -
  have cb: "resolve p = reject p"
    using inv who by (auto simp: queue_inv_def)
  have other: "futures s' ! a' = futures s ! a'"
    if "(k', q') \<in> set (pending_commands s)" "k' \<noteq> k" "reject q' = FutureCallback a'"
    for k' q' a'
  proof -
    from futs show ?thesis
    proof
      assume "futures s' = futures s"
      then show ?thesis by simp
    next
      assume "\<exists>a v. resolve p = FutureCallback a \<and> futures s' = (futures s)[a := v]"
      then obtain a v where a: "reject p = FutureCallback a" "futures s' = (futures s)[a := v]"
        using cb by auto
      have "a \<noteq> a'"
      proof
        assume "a = a'"
        with inv who that a have "k = k'"
          unfolding queue_inv_def by blast
        with that show False by simp
      qed
      with a show ?thesis by simp
    qed
  qed
  have len: "length (futures s') = length (futures s)"
    using futs by auto
  show ?thesis
    unfolding queue_inv_def
  proof (intro conjI allI impI)
    fix k' q'
    assume "(k', q') \<in> set (pending_commands s')"
    then have in_s: "(k', q') \<in> set (pending_commands s)" and ne: "k' \<noteq> k"
      by (auto simp: pend set_dict_pop)
    from inv in_s show "id_pc q' = k'" "resolve q' = reject q'"
      by (auto simp: queue_inv_def)
    fix a'
    assume r: "reject q' = FutureCallback a'"
    with inv in_s have "a' < length (futures s) \<and> futures s ! a' = FPending"
      by (auto simp: queue_inv_def)
    with other [OF in_s ne r] len
    show "a' < length (futures s')" "futures s' ! a' = FPending"
      by simp_all
  next
    fix k' q'
    assume "(k', q') \<in> set I'"
    with sub have i: "(k', q') \<in> set I" by auto
    with inv show "resolve q' = reject q'" by (auto simp: queue_inv_def)
    fix a'
    assume "reject q' = FutureCallback a'"
    with inv i len show "a' < length (futures s')" by (auto simp: queue_inv_def)
  next
    fix k1 q1 k2 q2 a
    assume h: "((k1, q1) \<in> set (pending_commands s') \<or> (k1, q1) \<in> set I')
             \<and> (k2, q2) \<in> set (pending_commands s')
             \<and> reject q1 = FutureCallback a \<and> reject q2 = FutureCallback a"
    then have "((k1, q1) \<in> set (pending_commands s) \<or> (k1, q1) \<in> set I)
             \<and> (k2, q2) \<in> set (pending_commands s)"
      using sub by (auto simp: pend set_dict_pop)
    with inv h show "k1 = k2"
      unfolding queue_inv_def by blast
  qed
qed

lemma queue_inv_insert:
  assumes inv: "queue_inv s I"
    and pend: "pending_commands s' = dict_set (pending_commands s) k q"
    and id: "id_pc q = k" and cb: "resolve q = reject q"
    and fresh: "reject q = NoopCallback \<and> futures s' = futures s
              \<or> reject q = FutureCallback (length (futures s))
                \<and> futures s' = futures s @ [FPending]"
  shows "queue_inv s' I"
proof -
  have old: "futures s' ! a = futures s ! a \<and> a < length (futures s')"
    if "a < length (futures s)" for a
    using fresh that by (auto simp: nth_append)
  have new: "a < length (futures s') \<and> futures s' ! a = FPending \<and> \<not> a < length (futures s)"
    if "reject q = FutureCallback a" for a
    using fresh that by auto
  have mem: "(k', q') \<in> set (pending_commands s) \<or> (k', q') = (k, q)"
    if "(k', q') \<in> set (pending_commands s')" for k' q'
    using that set_dict_set [of "pending_commands s" k q] by (auto simp: pend)
  show ?thesis
    unfolding queue_inv_def
  proof (intro conjI allI impI)
    fix k' q'
    assume m: "(k', q') \<in> set (pending_commands s')"
    from mem [OF m] inv id cb show "id_pc q' = k'" "resolve q' = reject q'"
      by (auto simp: queue_inv_def)
    fix a
    assume r: "reject q' = FutureCallback a"
    from mem [OF m] show "a < length (futures s')" "futures s' ! a = FPending"
    proof -
      from mem [OF m] have "a < length (futures s') \<and> futures s' ! a = FPending"
      proof
        assume "(k', q') \<in> set (pending_commands s)"
        with inv r have "a < length (futures s) \<and> futures s ! a = FPending"
          by (auto simp: queue_inv_def)
        with old [of a] show ?thesis by simp
      next
        assume "(k', q') = (k, q)"
        with r new [of a] show ?thesis by simp
      qed
      then show "a < length (futures s')" "futures s' ! a = FPending" by simp_all
    qed
  next
    fix k' q'
    assume i: "(k', q') \<in> set I"
    with inv show "resolve q' = reject q'" by (auto simp: queue_inv_def)
    fix a
    assume "reject q' = FutureCallback a"
    with inv i have "a < length (futures s)" by (auto simp: queue_inv_def)
    with old [of a] show "a < length (futures s')" by simp
  next
    fix k1 q1 k2 q2 a
    assume h: "((k1, q1) \<in> set (pending_commands s') \<or> (k1, q1) \<in> set I)
             \<and> (k2, q2) \<in> set (pending_commands s')
             \<and> reject q1 = FutureCallback a \<and> reject q2 = FutureCallback a"
    then have r1: "reject q1 = FutureCallback a" and r2: "reject q2 = FutureCallback a"
      by simp_all
    from h have c1: "(k1, q1) \<in> set (pending_commands s) \<or> (k1, q1) \<in> set I \<or> (k1, q1) = (k, q)"
      using mem by blast
    from h have c2: "(k2, q2) \<in> set (pending_commands s) \<or> (k2, q2) = (k, q)"
      using mem by blast
    have lt: "a < length (futures s)"
      if "(k', q') \<in> set (pending_commands s) \<or> (k', q') \<in> set I"
        and "reject q' = FutureCallback a" for k' q'
      using inv that unfolding queue_inv_def by blast
    show "k1 = k2"
    proof (cases "(k1, q1) = (k, q)")
      case True
      with r1 have "reject q = FutureCallback a" by simp
      from new [OF this] have n1: "\<not> a < length (futures s)" by simp
      from c2 show ?thesis
      proof
        assume "(k2, q2) \<in> set (pending_commands s)"
        with lt [of k2 q2] r2 n1 show ?thesis by simp
      next
        assume "(k2, q2) = (k, q)"
        with True show ?thesis by simp
      qed
    next
      case False
      with c1 have o1: "(k1, q1) \<in> set (pending_commands s) \<or> (k1, q1) \<in> set I" by blast
      from c2 show ?thesis
      proof
        assume o2: "(k2, q2) \<in> set (pending_commands s)"
        with inv o1 r1 r2 show ?thesis unfolding queue_inv_def by blast
      next
        assume "(k2, q2) = (k, q)"
        then have "q2 = q" by simp
        with new [of a] r2 have "\<not> a < length (futures s)" by simp
        with lt [OF o1 r1] show ?thesis by simp
      qed
    qed
  qed
qed

lemma initialize_default_whitelist_frame:
  "pending_commands (initialize_default_whitelist s cmds) = pending_commands s
   \<and> futures (initialize_default_whitelist s cmds) = futures s"
  unfolding initialize_default_whitelist_def
  by (induction cmds arbitrary: s) simp_all

lemma queue_inv_init: "queue_inv (init_service env sh t cmds) []"
  by (simp add: queue_inv_def init_service_def initialize_default_whitelist_frame)

lemma queue_inv_queue_non_blocking:
  "queue_inv s I \<Longrightarrow>
   queue_inv (snd (queue_command_for_approval_non_blocking s cmd args who cmd_id now)) I"
  by (rule queue_inv_insert
        [where s = s and k = cmd_id
           and q = "\<lparr>id_pc = cmd_id, command_pc = cmd, args_pc = args_or_empty args,
                     requested_at = now, requested_by = who,
                     resolve = NoopCallback, reject = NoopCallback\<rparr>"])
     (simp_all add: queue_command_for_approval_non_blocking_def Let_def emit_def call_later_def)

lemma queue_inv_queue:
  "queue_inv s I \<Longrightarrow>
   queue_inv (snd (queue_command_for_approval s cmd args who cmd_id now)) I"
  by (rule queue_inv_insert
        [where s = s and k = cmd_id
           and q = "\<lparr>id_pc = cmd_id, command_pc = cmd, args_pc = args_or_empty args,
                     requested_at = now, requested_by = who,
                     resolve = FutureCallback (length (futures s)),
                     reject = FutureCallback (length (futures s))\<rparr>"])
     (simp_all add: queue_command_for_approval_def Let_def emit_def call_later_def)

lemma queue_inv_run_now:
  "queue_inv s I \<Longrightarrow> queue_inv (snd (run_now env s cmd args timeout)) I"
  by (rule queue_inv_frame [where s = s]) (simp_all add: run_now_frame)

lemma queue_inv_execute:
  assumes "queue_inv s I"
  shows "queue_inv (snd (execute_command env s cmd args timeout who cmd_id now)) I"
proof (cases "validate_command s cmd (args_or_empty args)")
  case None
  with assms show ?thesis by (simp add: execute_command_def)
next
  case (Some level)
  show ?thesis
  proof (cases level)
    case SAFE
    with Some have "snd (execute_command env s cmd args timeout who cmd_id now)
                      = snd (run_now env s cmd (args_or_empty args) timeout)"
      by (cases "run_now env s cmd (args_or_empty args) timeout")
         (auto simp: execute_command_def split: sum.split)
    with queue_inv_run_now [OF assms, of env cmd "args_or_empty args" timeout]
    show ?thesis by simp
  next
    case REQUIRES_APPROVAL
    with Some have "snd (execute_command env s cmd args timeout who cmd_id now)
                      = snd (queue_command_for_approval s cmd (Some (args_or_empty args)) who
                               cmd_id now)"
      by (cases "queue_command_for_approval s cmd (Some (args_or_empty args)) who cmd_id now")
         (simp add: execute_command_def)
    with queue_inv_queue [OF assms, of cmd "Some (args_or_empty args)" who cmd_id now]
    show ?thesis by simp
  next
    case FORBIDDEN
    with Some assms show ?thesis by (simp add: execute_command_def)
  qed
qed

lemma queue_inv_fire_timer: "queue_inv s I \<Longrightarrow> queue_inv (fire_timer s) I"
  by (rule queue_inv_frame [where s = s])
     (simp_all add: fire_timer_def timeout_check_def emit_def split: list.split prod.split)

lemma queue_inv_deny:
  assumes "queue_inv s I"
  shows "queue_inv (snd (deny_command s k r)) I"
proof (cases "dict_get (pending_commands s) k")
  case None
  with assms show ?thesis by (simp add: deny_command_def)
next
  case (Some p)
  have cb: "resolve p = reject p"
    using assms dict_get_in_set [OF Some] by (auto simp: queue_inv_def)
  show ?thesis
  proof (rule queue_inv_settle [OF assms, where k = k and p = p])
    show "(k, p) \<in> set (pending_commands s) \<or> (k, p) \<in> set I"
      using dict_get_in_set [OF Some] by simp
    show "pending_commands (snd (deny_command s k r)) = dict_pop (pending_commands s) k"
      using Some by (simp add: deny_command_def Let_def call_reject_frame emit_def)
    show "futures (snd (deny_command s k r)) = futures s
          \<or> (\<exists>a v. resolve p = FutureCallback a
                \<and> futures (snd (deny_command s k r)) = (futures s)[a := v])"
      using Some cb
      by (cases "reject p")
         (auto simp: deny_command_def Let_def call_reject_futures emit_def)
    show "set I \<subseteq> set I" by simp
  qed
qed

lemma queue_inv_approve_begin:
  assumes "queue_inv s I" and "approve_command_begin s k = Inr (p, s')"
  shows "queue_inv s' ((k, p) # I)"
proof -
  from assms(2) have p: "dict_get (pending_commands s) k = Some p" and s': "s' = s"
    by (auto simp: approve_command_begin_def split: option.splits)
  from dict_get_in_set [OF p] assms(1) show ?thesis
    unfolding s' queue_inv_def by (simp (no_asm_simp)) blast
qed

lemma queue_inv_approve_resume:
  assumes "queue_inv s I" and "(k, p) \<in> set I"
  shows "queue_inv (snd (approve_command_resume s k p outcome)) (remove1 (k, p) I)"
proof (rule queue_inv_settle [OF assms(1), where k = k and p = p])
  have cb: "resolve p = reject p"
    using assms by (auto simp: queue_inv_def)
  show "(k, p) \<in> set (pending_commands s) \<or> (k, p) \<in> set I"
    using assms(2) by simp
  show "pending_commands (snd (approve_command_resume s k p outcome))
          = dict_pop (pending_commands s) k"
    by (cases outcome)
       (simp_all add: approve_command_resume_def Let_def call_reject_frame call_resolve_frame
          emit_def)
  show "futures (snd (approve_command_resume s k p outcome)) = futures s
        \<or> (\<exists>a v. resolve p = FutureCallback a
              \<and> futures (snd (approve_command_resume s k p outcome)) = (futures s)[a := v])"
    using cb
    by (cases outcome; cases "reject p")
       (auto simp: approve_command_resume_def Let_def call_reject_futures call_resolve_futures
          emit_def)
  show "set (remove1 (k, p) I) \<subseteq> set I"
    by (rule set_remove1_subset)
qed

text \<open>Every reachable state satisfies the invariant.\<close>

lemma reachable_queue_inv: "reachable env s I \<Longrightarrow> queue_inv s I"
proof (induction rule: reachable.induct)
  case (init sh t cmds)
  show ?case by (rule queue_inv_init)
next
  case (add s I entry)
  then show ?case by (auto intro: queue_inv_frame simp: add_to_whitelist_def)
next
  case (remove s I cmd)
  then show ?case by (auto intro: queue_inv_frame simp: remove_from_whitelist_def)
next
  case (update s I cmd level)
  then show ?case
    by (auto intro: queue_inv_frame simp: update_security_level_def split: option.split)
next
  case (execute s I cmd args timeout who cmd_id now)
  then show ?case by (simp add: queue_inv_execute)
next
  case (queue s I cmd args who cmd_id now)
  then show ?case by (simp add: queue_inv_queue_non_blocking)
next
  case (timer s I)
  then show ?case by (simp add: queue_inv_fire_timer)
next
  case (deny s I k r)
  then show ?case by (simp add: queue_inv_deny)
next
  case (approve_begin s I k p s')
  then show ?case by (simp add: queue_inv_approve_begin)
next
  case (approve_run s I cmd args timeout)
  then show ?case by (simp add: queue_inv_run_now)
next
  case (approve_resume s I k p outcome)
  then show ?case by (simp add: queue_inv_approve_resume)
qed

text \<open>The example state is reachable: a fresh service, one entry added, one call.\<close>

lemma service_waiting_reachable: "reachable env service_waiting []"
proof -
  have "init_service env (Some ''/bin/sh'') 30000 [] = service0"
    by (simp add: service0_def init_service_def initialize_default_whitelist_def)
  with reachable.init [of env "Some ''/bin/sh''" 30000 "[]"]
  have "reachable env service0 []"
    by simp
  then have "reachable env (add_to_whitelist service0 (entry_of ''mkdir'' REQUIRES_APPROVAL None)) []"
    by (rule reachable.add)
  then have "reachable env
      (snd (execute_command env
              (add_to_whitelist service0 (entry_of ''mkdir'' REQUIRES_APPROVAL None))
              ''mkdir'' (Some [''d'']) None None ''id1'' 0)) []"
    by (rule reachable.execute)
  moreover have "snd (execute_command env
              (add_to_whitelist service0 (entry_of ''mkdir'' REQUIRES_APPROVAL None))
              ''mkdir'' (Some [''d'']) None None ''id1'' 0) = service_waiting"
    by (simp add: execute_command_def validate_command_def add_to_whitelist_def service0_def
        entry_of_def dict_get_def dict_set_def base_command_def args_or_empty_def
        service_waiting_def split: prod.split)
  ultimately show ?thesis by simp
qed

text \<open>
  C7. For an id that is not pending, \<open>deny_command\<close> raises the "no pending
  command" error and leaves the state as it was. For an id that is pending it returns
  normally; the pending mapping afterwards is the old one without the id, so
  \<open>get_pending_commands\<close> lists exactly the records stored under the other ids (none
  of which carries the id, when every record is stored under its own id); the
  \<open>denied\<close> event with the id and the reason is appended; and the record's
  \<open>reject\<close> is called with an error whose message is the reason: the future a
  blocking caller waits on, still unfulfilled, then holds that error, while the stub of
  the non-blocking mode changes no future. In every reachable state that future is
  still unfulfilled and every record is stored under its own id, so there the waiter
  fails with the reason and no listed record carries the id.
\<close>

theorem deny_command_outcome:
  "(dict_get (pending_commands s) cid = None \<longrightarrow>
      deny_command s cid r = (Inl (RuntimeError (''No pending command with ID: '' @ cid)), s))
   \<and> (dict_get (pending_commands s) cid = Some p \<longrightarrow>
        fst (deny_command s cid (Some reason)) = Inr ()
      \<and> pending_commands (snd (deny_command s cid (Some reason)))
          = dict_pop (pending_commands s) cid
      \<and> dict_get (pending_commands (snd (deny_command s cid (Some reason)))) cid = None
      \<and> get_pending_commands (snd (deny_command s cid (Some reason)))
          = map snd (filter (\<lambda>(k, q). k \<noteq> cid) (pending_commands s))
      \<and> ((\<forall>(k, q) \<in> set (pending_commands s). id_pc q = k) \<longrightarrow>
           cid \<notin> id_pc ` set (get_pending_commands (snd (deny_command s cid (Some reason)))))
      \<and> emitted (snd (deny_command s cid (Some reason)))
          = emitted s @ [(''command:denied'', DeniedPayload cid reason)]
      \<and> (\<forall>a. reject p = FutureCallback a \<and> a < length (futures s)
               \<and> futures s ! a = FPending \<longrightarrow>
             futures (snd (deny_command s cid (Some reason)))
               = (futures s)[a := FException (RuntimeError reason)]
             \<and> futures (snd (deny_command s cid (Some reason))) ! a
               = FException (RuntimeError reason))
      \<and> (reject p = NoopCallback \<longrightarrow>
             futures (snd (deny_command s cid (Some reason))) = futures s)
      \<and> (reachable env s I \<longrightarrow>
             cid \<notin> id_pc ` set (get_pending_commands (snd (deny_command s cid (Some reason))))
           \<and> (\<forall>a. reject p = FutureCallback a \<longrightarrow>
                  futures (snd (deny_command s cid (Some reason))) ! a
                    = FException (RuntimeError reason))))"
proof (intro conjI impI)
  assume "dict_get (pending_commands s) cid = None"
  then show "deny_command s cid r
               = (Inl (RuntimeError (''No pending command with ID: '' @ cid)), s)"
    by (rule deny_command_absent)
next
  assume p: "dict_get (pending_commands s) cid = Some p"
  let ?s' = "snd (deny_command s cid (Some reason))"
  show "fst (deny_command s cid (Some reason)) = Inr ()"
    by (simp add: deny_command_present [OF p])
  show pend: "pending_commands ?s' = dict_pop (pending_commands s) cid"
    by (simp add: deny_command_present [OF p] call_reject_frame emit_def)
  show "dict_get (pending_commands ?s') cid = None"
    by (simp add: pend dict_get_pop)
  show vals: "get_pending_commands ?s'
          = map snd (filter (\<lambda>(k, q). k \<noteq> cid) (pending_commands s))"
    by (simp add: get_pending_commands_def pend dict_values_pop)
  show "emitted ?s' = emitted s @ [(''command:denied'', DeniedPayload cid reason)]"
    by (simp add: deny_command_present [OF p] call_reject_frame emit_def)
  show "\<forall>a. reject p = FutureCallback a \<and> a < length (futures s)
               \<and> futures s ! a = FPending \<longrightarrow>
             futures ?s' = (futures s)[a := FException (RuntimeError reason)]
             \<and> futures ?s' ! a = FException (RuntimeError reason)"
    by (simp add: deny_command_present [OF p] call_reject_futures emit_def)
  {
    assume "reject p = NoopCallback"
    then show "futures ?s' = futures s"
      by (simp add: deny_command_present [OF p] call_reject_futures emit_def)
  }
  {
    assume "\<forall>(k, q) \<in> set (pending_commands s). id_pc q = k"
    then show "cid \<notin> id_pc ` set (get_pending_commands ?s')"
      by (auto simp: vals)
  }
  {
    assume "reachable env s I"
    then have inv: "queue_inv s I" by (rule reachable_queue_inv)
    then have "\<forall>(k, q) \<in> set (pending_commands s). id_pc q = k"
      by (auto simp: queue_inv_def)
    then show "cid \<notin> id_pc ` set (get_pending_commands ?s')"
      by (auto simp: vals)
    from inv dict_get_in_set [OF p]
    have "\<forall>a. reject p = FutureCallback a \<longrightarrow>
              a < length (futures s) \<and> futures s ! a = FPending"
      by (auto simp: queue_inv_def)
    then show "\<forall>a. reject p = FutureCallback a \<longrightarrow>
              futures ?s' ! a = FException (RuntimeError reason)"
      by (simp add: deny_command_present [OF p] call_reject_futures emit_def)
  }
qed

text \<open>
  C7, witness: denying \<open>id1\<close> with the reason \<open>policy\<close> empties the pending
  list, emits the event and fails the waiting future with that reason; on a service
  with nothing pending the same call raises.
\<close>

theorem deny_command_outcome_witness:
  "fst (deny_command service_waiting ''id1'' (Some ''policy'')) = Inr ()
   \<and> get_pending_commands (snd (deny_command service_waiting ''id1'' (Some ''policy''))) = []
   \<and> emitted (snd (deny_command service_waiting ''id1'' (Some ''policy'')))
       = [(''command:pending'',
           PendingPayload (pending_of ''id1'' ''mkdir'' [''d''] (FutureCallback 0))),
          (''command:denied'', DeniedPayload ''id1'' ''policy'')]
   \<and> futures (snd (deny_command service_waiting ''id1'' (Some ''policy'')))
       = [FException (RuntimeError ''policy'')]
   \<and> ''id1'' \<notin> id_pc ` set (get_pending_commands
                                (snd (deny_command service_waiting ''id1'' (Some ''policy''))))
   \<and> deny_command service0 ''id1'' None
       = (Inl (RuntimeError ''No pending command with ID: id1''), service0)"
proof -
  let ?p = "pending_of ''id1'' ''mkdir'' [''d''] (FutureCallback 0)"
  let ?env = "env_of ''linux'' (SpawnFails (OSError ''No such file or directory''))"
  have reach: "reachable ?env service_waiting []"
    by (rule service_waiting_reachable)
  have present: "dict_get (pending_commands service_waiting) ''id1'' = Some ?p"
    by (simp add: service_waiting_fields dict_get_def)
  have absent: "dict_get (pending_commands service0) ''id1'' = None"
    by (simp add: service0_def dict_get_def)
  have handle: "reject ?p = FutureCallback 0 \<and> 0 < length (futures service_waiting)
                \<and> futures service_waiting ! 0 = FPending"
    by (simp add: service_waiting_fields pending_of_def)
  from deny_command_outcome [of service_waiting "''id1''" None ?p "''policy''" ?env "[]"]
    deny_command_outcome [of service0 "''id1''" None]
    present absent handle reach
  show ?thesis
    by (simp add: service_waiting_fields)
qed

text \<open>The example state after \<open>id1\<close> has been denied with the reason \<open>policy\<close>.\<close>

lemma service_denied_fields:
  "pending_commands (snd (deny_command service_waiting ''id1'' (Some ''policy''))) = []
   \<and> futures (snd (deny_command service_waiting ''id1'' (Some ''policy'')))
       = [FException (RuntimeError ''policy'')]
   \<and> emitted (snd (deny_command service_waiting ''id1'' (Some ''policy'')))
       = [(''command:pending'',
           PendingPayload (pending_of ''id1'' ''mkdir'' [''d''] (FutureCallback 0))),
          (''command:denied'', DeniedPayload ''id1'' ''policy'')]"
proof -
  have present: "dict_get (pending_commands service_waiting) ''id1''
                   = Some (pending_of ''id1'' ''mkdir'' [''d''] (FutureCallback 0))"
    by (simp add: service_waiting_fields dict_get_def)
  show ?thesis
    by (simp add: deny_command_present [OF present] call_reject_frame call_reject_futures
        emit_def service_waiting_fields pending_of_def dict_pop_def)
qed

text \<open>What follows the await when \<open>_run_now\<close> raised, in whatever state that is.\<close>

lemma approve_command_resume_failure_futures:
  "futures (snd (approve_command_resume s cid p (Inl e))) =
     (case reject p of
        NoopCallback \<Rightarrow> futures s
      | FutureCallback a \<Rightarrow>
          if a < length (futures s) \<and> futures s ! a = FPending
          then (futures s)[a := FException e] else futures s)"
  by (simp add: approve_command_resume_failure call_reject_futures emit_def
      split: callback.split)

text \<open>
  C2, as the code has it. For a pending id, \<open>approve_command\<close> reaches the await on
  \<open>_run_now\<close> with the state untouched, so the record is still in the pending
  mapping while the command runs; the call with nothing else running during the await
  is the lookup, \<open>_run_now\<close> and the code after the await, one after the other. When
  \<open>_run_now\<close> raises, the code after the await, in whatever state the service is in
  by then, raises the same error, takes the id out of the pending mapping, appends the
  \<open>failed\<close> event with the id and the error, and calls the record's \<open>reject\<close>
  with the error: the waiter's future then holds the failure if it was unfulfilled,
  and keeps what it held if something fulfilled it during the await (in every reachable
  state with this approval in flight the future exists). When nothing else runs during
  the await, all this holds of the whole call, and from a reachable state the waiter's
  future then holds the failure.
\<close>

theorem approve_command_failure:
  assumes p: "dict_get (pending_commands s) cid = Some p"
  shows "approve_command_begin s cid = Inr (p, s)
       \<and> approve_command env s cid
           = approve_command_resume (snd (run_now env s (command_pc p) (args_pc p) None)) cid p
               (fst (run_now env s (command_pc p) (args_pc p) None))
       \<and> (\<forall>s'. dict_get (pending_commands (snd (approve_command_resume s' cid p outcome))) cid
                  = None)
       \<and> (\<forall>s' e.
              fst (approve_command_resume s' cid p (Inl e)) = Inl e
            \<and> pending_commands (snd (approve_command_resume s' cid p (Inl e)))
                = dict_pop (pending_commands s') cid
            \<and> emitted (snd (approve_command_resume s' cid p (Inl e)))
                = emitted s' @ [(''command:failed'', FailedPayload cid e)]
            \<and> (\<forall>a. reject p = FutureCallback a \<and> a < length (futures s') \<longrightarrow>
                   futures (snd (approve_command_resume s' cid p (Inl e)))
                     = (futures s')[a := (if futures s' ! a = FPending then FException e
                                          else futures s' ! a)])
            \<and> (reject p = NoopCallback \<longrightarrow>
                   futures (snd (approve_command_resume s' cid p (Inl e))) = futures s')
            \<and> (\<forall>I a. reachable env s' I \<and> (cid, p) \<in> set I
                     \<and> reject p = FutureCallback a \<longrightarrow>
                   futures (snd (approve_command_resume s' cid p (Inl e))) ! a
                     = (if futures s' ! a = FPending then FException e else futures s' ! a)))
       \<and> (\<forall>e. fst (run_now env s (command_pc p) (args_pc p) None) = Inl e \<longrightarrow>
              fst (approve_command env s cid) = Inl e
            \<and> pending_commands (snd (approve_command env s cid))
                = dict_pop (pending_commands s) cid
            \<and> dict_get (pending_commands (snd (approve_command env s cid))) cid = None
            \<and> emitted (snd (approve_command env s cid))
                = emitted s @ [(''command:failed'', FailedPayload cid e)]
            \<and> (\<forall>a. reject p = FutureCallback a \<and> a < length (futures s)
                     \<and> futures s ! a = FPending \<longrightarrow>
                   futures (snd (approve_command env s cid)) = (futures s)[a := FException e]
                   \<and> futures (snd (approve_command env s cid)) ! a = FException e)
            \<and> (reject p = NoopCallback \<longrightarrow>
                   futures (snd (approve_command env s cid)) = futures s)
            \<and> (reachable env s I \<longrightarrow>
                   (\<forall>a. reject p = FutureCallback a \<longrightarrow>
                      futures (snd (approve_command env s cid)) ! a = FException e)))"
proof -
  have lookup: "approve_command_begin s cid = Inr (p, s)"
    using p by (simp add: approve_command_begin_def)
  have whole: "approve_command env s cid
           = approve_command_resume (snd (run_now env s (command_pc p) (args_pc p) None)) cid p
               (fst (run_now env s (command_pc p) (args_pc p) None))"
    by (rule approve_command_present [OF p])
  have gone: "dict_get (pending_commands (snd (approve_command_resume s' cid p outcome))) cid
                = None" for s'
    by (cases outcome)
       (simp_all add: approve_command_resume_def Let_def call_reject_frame call_resolve_frame
          emit_def dict_get_pop)
  have resume: "fst (approve_command_resume s' cid p (Inl e)) = Inl e
            \<and> pending_commands (snd (approve_command_resume s' cid p (Inl e)))
                = dict_pop (pending_commands s') cid
            \<and> emitted (snd (approve_command_resume s' cid p (Inl e)))
                = emitted s' @ [(''command:failed'', FailedPayload cid e)]" for s' e
    by (simp add: approve_command_resume_failure call_reject_frame emit_def)
  have handle: "futures (snd (approve_command_resume s' cid p (Inl e)))
                  = (futures s')[a := (if futures s' ! a = FPending then FException e
                                       else futures s' ! a)]"
    if "reject p = FutureCallback a \<and> a < length (futures s')" for s' e a
    using that by (simp add: approve_command_resume_failure_futures)
  have stub: "futures (snd (approve_command_resume s' cid p (Inl e))) = futures s'"
    if "reject p = NoopCallback" for s' e
    using that by (simp add: approve_command_resume_failure_futures)
  have inflight: "futures (snd (approve_command_resume s' cid p (Inl e))) ! a
                    = (if futures s' ! a = FPending then FException e else futures s' ! a)"
    if "reachable env s' I' \<and> (cid, p) \<in> set I' \<and> reject p = FutureCallback a"
    for s' e I' a
  proof -
    from that have "reachable env s' I'" by simp
    then have "queue_inv s' I'" by (rule reachable_queue_inv)
    with that have "a < length (futures s')"
      unfolding queue_inv_def by blast
    with that show ?thesis
      by (simp add: approve_command_resume_failure_futures)
  qed
  have atomic: "fst (approve_command env s cid) = Inl e
            \<and> pending_commands (snd (approve_command env s cid))
                = dict_pop (pending_commands s) cid
            \<and> dict_get (pending_commands (snd (approve_command env s cid))) cid = None
            \<and> emitted (snd (approve_command env s cid))
                = emitted s @ [(''command:failed'', FailedPayload cid e)]
            \<and> (\<forall>a. reject p = FutureCallback a \<and> a < length (futures s)
                     \<and> futures s ! a = FPending \<longrightarrow>
                   futures (snd (approve_command env s cid)) = (futures s)[a := FException e]
                   \<and> futures (snd (approve_command env s cid)) ! a = FException e)
            \<and> (reject p = NoopCallback \<longrightarrow>
                   futures (snd (approve_command env s cid)) = futures s)
            \<and> (reachable env s I \<longrightarrow>
                   (\<forall>a. reject p = FutureCallback a \<longrightarrow>
                      futures (snd (approve_command env s cid)) ! a = FException e))"
    if fails: "fst (run_now env s (command_pc p) (args_pc p) None) = Inl e" for e
  proof -
    let ?s1 = "snd (run_now env s (command_pc p) (args_pc p) None)"
    note fr = run_now_frame [of env s "command_pc p" "args_pc p" None]
    have w: "approve_command env s cid = approve_command_resume ?s1 cid p (Inl e)"
      using whole fails by simp
    have open_handle: "a < length (futures s) \<and> futures s ! a = FPending"
      if "reachable env s I" "reject p = FutureCallback a" for a
    proof -
      from that(1) have "queue_inv s I" by (rule reachable_queue_inv)
      with dict_get_in_set [OF p] that show ?thesis
        unfolding queue_inv_def by blast
    qed
    show ?thesis
      using open_handle
      by (auto simp: w resume fr dict_get_pop approve_command_resume_failure_futures)
  qed
  from lookup whole gone resume handle stub inflight atomic show ?thesis
    by blast
qed

text \<open>
  C2, witness: approving \<open>id1\<close> when the shell cannot be spawned. With nothing else
  running during the await the waiter's future holds that failure; when \<open>id1\<close> is
  denied during the await, the code after the await still raises the failure and emits
  the \<open>failed\<close> event, and the future keeps the denial.
\<close>

theorem approve_command_failure_witness:
  "fst (approve_command (env_of ''linux'' (SpawnFails (OSError ''No such file or directory'')))
          service_waiting ''id1'')
     = Inl (OSError ''No such file or directory'')
   \<and> get_pending_commands
        (snd (approve_command (env_of ''linux'' (SpawnFails (OSError ''No such file or directory'')))
                service_waiting ''id1'')) = []
   \<and> emitted
        (snd (approve_command (env_of ''linux'' (SpawnFails (OSError ''No such file or directory'')))
                service_waiting ''id1''))
     = [(''command:pending'',
         PendingPayload (pending_of ''id1'' ''mkdir'' [''d''] (FutureCallback 0))),
        (''command:failed'', FailedPayload ''id1'' (OSError ''No such file or directory''))]
   \<and> futures
        (snd (approve_command (env_of ''linux'' (SpawnFails (OSError ''No such file or directory'')))
                service_waiting ''id1''))
     = [FException (OSError ''No such file or directory'')]
   \<and> fst (approve_command_resume (snd (deny_command service_waiting ''id1'' (Some ''policy'')))
            ''id1'' (pending_of ''id1'' ''mkdir'' [''d''] (FutureCallback 0))
            (Inl (OSError ''No such file or directory'')))
     = Inl (OSError ''No such file or directory'')
   \<and> emitted
        (snd (approve_command_resume (snd (deny_command service_waiting ''id1'' (Some ''policy'')))
                ''id1'' (pending_of ''id1'' ''mkdir'' [''d''] (FutureCallback 0))
                (Inl (OSError ''No such file or directory''))))
     = [(''command:pending'',
         PendingPayload (pending_of ''id1'' ''mkdir'' [''d''] (FutureCallback 0))),
        (''command:denied'', DeniedPayload ''id1'' ''policy''),
        (''command:failed'', FailedPayload ''id1'' (OSError ''No such file or directory''))]
   \<and> futures
        (snd (approve_command_resume (snd (deny_command service_waiting ''id1'' (Some ''policy'')))
                ''id1'' (pending_of ''id1'' ''mkdir'' [''d''] (FutureCallback 0))
                (Inl (OSError ''No such file or directory''))))
     = [FException (RuntimeError ''policy'')]"
proof -
  let ?p = "pending_of ''id1'' ''mkdir'' [''d''] (FutureCallback 0)"
  let ?e = "OSError ''No such file or directory''"
  let ?env = "env_of ''linux'' (SpawnFails ?e)"
  let ?denied = "snd (deny_command service_waiting ''id1'' (Some ''policy''))"
  have present: "dict_get (pending_commands service_waiting) ''id1'' = Some ?p"
    by (simp add: service_waiting_fields dict_get_def)
  have fails: "fst (run_now ?env service_waiting (command_pc ?p) (args_pc ?p) None) = Inl ?e"
    by (simp add: run_now_def env_of_def timeout_sec_cases service_waiting_fields)
  have handle: "reject ?p = FutureCallback 0 \<and> 0 < length (futures service_waiting)
                \<and> futures service_waiting ! 0 = FPending"
    by (simp add: service_waiting_fields pending_of_def)
  have handle': "reject ?p = FutureCallback 0 \<and> 0 < length (futures ?denied)"
    by (simp add: service_denied_fields pending_of_def)
  have reach: "reachable ?env service_waiting []"
    by (rule service_waiting_reachable)
  note th = approve_command_failure [OF present, where env = ?env and I = "[]"]
  note alone = th [THEN conjunct2, THEN conjunct2, THEN conjunct2, THEN conjunct2,
                   THEN spec, of ?e]
  note later = th [THEN conjunct2, THEN conjunct2, THEN conjunct2, THEN conjunct1,
                   THEN spec, THEN spec, of ?denied ?e]
  from alone fails handle reach
  have a: "fst (approve_command ?env service_waiting ''id1'') = Inl ?e
         \<and> get_pending_commands (snd (approve_command ?env service_waiting ''id1'')) = []
         \<and> emitted (snd (approve_command ?env service_waiting ''id1''))
             = [(''command:pending'', PendingPayload ?p), (''command:failed'', FailedPayload ''id1'' ?e)]
         \<and> futures (snd (approve_command ?env service_waiting ''id1'')) = [FException ?e]"
    by (simp add: service_waiting_fields get_pending_commands_def dict_values_def dict_pop_def)
  from later handle'
  have b: "fst (approve_command_resume ?denied ''id1'' ?p (Inl ?e)) = Inl ?e
         \<and> emitted (snd (approve_command_resume ?denied ''id1'' ?p (Inl ?e)))
             = [(''command:pending'', PendingPayload ?p),
                (''command:denied'', DeniedPayload ''id1'' ''policy''),
                (''command:failed'', FailedPayload ''id1'' ?e)]
         \<and> futures (snd (approve_command_resume ?denied ''id1'' ?p (Inl ?e)))
             = [FException (RuntimeError ''policy'')]"
    by (simp add: service_denied_fields)
  from a b show ?thesis by simp
qed

text \<open>
  C2, counterexample to the claim as stated: when \<open>approve_command\<close> starts
  \<open>_run_now\<close> for \<open>id1\<close>, the state it runs in still holds \<open>id1\<close> in the
  pending mapping, and \<open>get_pending_commands\<close> still lists the record. So a
  \<open>deny_command\<close> for \<open>id1\<close> during the run succeeds, and when the run then
  fails, the waiter's future holds the denial, not the failure, and both the
  \<open>denied\<close> and the \<open>failed\<close> event have been emitted.
\<close>

theorem approve_command_removes_after_run:
  "approve_command_begin service_waiting ''id1''
     = Inr (pending_of ''id1'' ''mkdir'' [''d''] (FutureCallback 0), service_waiting)
   \<and> (case approve_command_begin service_waiting ''id1'' of
        Inl e \<Rightarrow> False
      | Inr (p, s_run) \<Rightarrow> dict_contains (pending_commands s_run) ''id1'')
   \<and> get_pending_commands service_waiting
       = [pending_of ''id1'' ''mkdir'' [''d''] (FutureCallback 0)]
   \<and> fst (deny_command service_waiting ''id1'' (Some ''policy'')) = Inr ()
   \<and> futures
        (snd (approve_command_resume (snd (deny_command service_waiting ''id1'' (Some ''policy'')))
                ''id1'' (pending_of ''id1'' ''mkdir'' [''d''] (FutureCallback 0))
                (Inl (OSError ''No such file or directory''))))
     = [FException (RuntimeError ''policy'')]
   \<and> emitted
        (snd (approve_command_resume (snd (deny_command service_waiting ''id1'' (Some ''policy'')))
                ''id1'' (pending_of ''id1'' ''mkdir'' [''d''] (FutureCallback 0))
                (Inl (OSError ''No such file or directory''))))
     = [(''command:pending'',
         PendingPayload (pending_of ''id1'' ''mkdir'' [''d''] (FutureCallback 0))),
        (''command:denied'', DeniedPayload ''id1'' ''policy''),
        (''command:failed'', FailedPayload ''id1'' (OSError ''No such file or directory''))]"
proof -
  have present: "dict_get (pending_commands service_waiting) ''id1''
                   = Some (pending_of ''id1'' ''mkdir'' [''d''] (FutureCallback 0))"
    by (simp add: service_waiting_fields dict_get_def)
  have at_await: "approve_command_begin service_waiting ''id1''
     = Inr (pending_of ''id1'' ''mkdir'' [''d''] (FutureCallback 0), service_waiting)"
    by (simp add: approve_command_begin_def present)
  have still: "dict_contains (pending_commands service_waiting) ''id1''"
    by (simp add: service_waiting_fields dict_contains_def)
  have listed: "get_pending_commands service_waiting
       = [pending_of ''id1'' ''mkdir'' [''d''] (FutureCallback 0)]"
    by (simp add: service_waiting_fields get_pending_commands_def dict_values_def)
  have denied: "fst (deny_command service_waiting ''id1'' (Some ''policy'')) = Inr ()"
    by (simp add: deny_command_present [OF present])
  have kept: "futures
        (snd (approve_command_resume (snd (deny_command service_waiting ''id1'' (Some ''policy'')))
                ''id1'' (pending_of ''id1'' ''mkdir'' [''d''] (FutureCallback 0))
                (Inl (OSError ''No such file or directory''))))
     = [FException (RuntimeError ''policy'')]"
    by (simp add: approve_command_resume_failure_futures service_denied_fields pending_of_def)
  have events: "emitted
        (snd (approve_command_resume (snd (deny_command service_waiting ''id1'' (Some ''policy'')))
                ''id1'' (pending_of ''id1'' ''mkdir'' [''d''] (FutureCallback 0))
                (Inl (OSError ''No such file or directory''))))
     = [(''command:pending'',
         PendingPayload (pending_of ''id1'' ''mkdir'' [''d''] (FutureCallback 0))),
        (''command:denied'', DeniedPayload ''id1'' ''policy''),
        (''command:failed'', FailedPayload ''id1'' (OSError ''No such file or directory''))]"
    by (simp add: approve_command_resume_failure call_reject_frame emit_def
        service_denied_fields)
  from at_await still listed denied kept events show ?thesis
    by simp
qed

end
